theory Spec2Isabelle
  imports Complex_Main "HOL-Library.Word" "HOL-Library.List_Lexorder"
begin

section \<open>JavaScript values\<close>

text \<open>
  A JavaScript string is a sequence of UTF-16 code units. String comparison (and hence the
  default \<^verbatim>\<open>Array.prototype.sort\<close>) is lexicographic on the code units, which is
  the order that \<^verbatim>\<open>HOL-Library.List_Lexorder\<close> puts on lists.
\<close>

type_synonym jsstring = "16 word list"

type_synonym bytes = "8 word list"

text \<open>Source text literals are ASCII; \<open>js\<close> turns one into its code units.\<close>

definition js :: "string \<Rightarrow> jsstring" where
  "js s = map (\<lambda>c. of_nat (of_char c)) s"

text \<open>
  A number is an IEEE double. Only two of its properties are ever inspected by the code:
  whether it is finite (\<^verbatim>\<open>Number.isFinite\<close>) and whether it is integral
  (\<^verbatim>\<open>Number.isInteger\<close>), so a finite double is represented by its rational value.
\<close>

datatype number = Finite rat | NaN | PosInfinity | NegInfinity

text \<open>
  The values the code can be handed at run time (the TypeScript types are erased).
  \<open>Obj\<close> lists the own enumerable string-keyed properties, in property enumeration order,
  of an object whose prototype is \<^verbatim>\<open>Object.prototype\<close>: an object literal, an object
  made by \<^verbatim>\<open>JSON.parse\<close>. \<open>ProtoObj p kvs\<close> is an object with the own properties
  \<open>kvs\<close> whose prototype is not \<^verbatim>\<open>Object.prototype\<close>: it has no prototype
  (\<open>p = Null\<close>), or its prototype is the object or array \<open>p\<close>, itself one of these
  values, as an assignment to \<^verbatim>\<open>__proto__\<close> makes it. \<open>Bytes\<close> is a
  \<^verbatim>\<open>Uint8Array\<close>; \<open>Other t\<close> is any value of another shape (function, symbol,
  bigint, class instance, ...) whose \<^verbatim>\<open>typeof\<close> is \<open>t\<close>. Arrays are dense.
\<close>

datatype jsvalue =
    Undefined
  | Null
  | Bool bool
  | Num number
  | Str jsstring
  | Bytes bytes
  | Arr "jsvalue list"
  | Obj "(jsstring \<times> jsvalue) list"
  | ProtoObj jsvalue "(jsstring \<times> jsvalue) list"
  | Other string

text \<open>
  An error message is a template: literal text, \<^verbatim>\<open>${v}\<close> interpolations and
  \<^verbatim>\<open>${Object.prototype.toString.call(v)}\<close> interpolations.
\<close>

datatype msg_part = Lit string | Interp jsvalue | ObjTag jsvalue

text \<open>
  Thrown values. \<open>Error\<close> is the built-in class, \<open>SnowyHttpError\<close> and
  \<open>SnowyTransportError\<close> are the two classes of \<^verbatim>\<open>Transport.ts\<close>, and
  \<open>Foreign\<close> is anything thrown by the platform or by injected code (a
  \<^verbatim>\<open>DOMException\<close>, a \<^verbatim>\<open>SyntaxError\<close>, ...), identified by its name.
\<close>

datatype js_error =
    Error "msg_part list"
  | SnowyHttpError nat jsstring jsstring jsstring
  | SnowyTransportError "msg_part list" "js_error option"
  | Foreign string

section \<open>crypto/hash.ts: canonicalization\<close>

definition isFinite :: "number \<Rightarrow> bool" where
  "isFinite n = (case n of Finite _ \<Rightarrow> True | _ \<Rightarrow> False)"

definition assertJsonSafeNumber :: "number \<Rightarrow> js_error option" where
  "assertJsonSafeNumber v =
     (if \<not> isFinite v
      then Some (Error [Lit ''Snowy SDK: numbers must be finite for deterministic hashing''])
      else None)"

text \<open>
  Property keys that are array indices: the canonical decimal spelling of an integer
  between 0 and \<open>2^32 - 2\<close>. An ordinary object enumerates these first, in ascending
  numeric order, and its other string keys afterwards, in the order they were created.
\<close>

definition is_digit :: "16 word \<Rightarrow> bool" where
  "is_digit c = (0x30 \<le> c \<and> c \<le> 0x39)"

definition digits_val :: "jsstring \<Rightarrow> nat" where
  "digits_val k = foldl (\<lambda>n c. 10 * n + (unat c - 48)) 0 k"

definition array_index :: "jsstring \<Rightarrow> nat option" where
  "array_index k =
     (if k \<noteq> [] \<and> list_all is_digit k \<and> (hd k \<noteq> 0x30 \<or> length k = 1)
         \<and> digits_val k \<le> 4294967294
      then Some (digits_val k) else None)"

text \<open>
  The own properties of an object after a property \<open>k\<close> has been given the value \<open>v\<close>:
  an existing property keeps its place; a new array-index key goes among the array-index
  keys by numeric value; any other new key goes last.
\<close>

fun set_prop :: "(jsstring \<times> jsvalue) list \<Rightarrow> jsstring \<Rightarrow> jsvalue \<Rightarrow> (jsstring \<times> jsvalue) list" where
  "set_prop [] k v = [(k, v)]"
| "set_prop ((k', v') # ps) k v =
     (if k' = k then (k, v) # ps
      else if k \<in> fst ` set ps then (k', v') # set_prop ps k v
      else (case array_index k of
              None \<Rightarrow> (k', v') # set_prop ps k v
            | Some n \<Rightarrow>
                (case array_index k' of
                   None \<Rightarrow> (k, v) # (k', v') # ps
                 | Some n' \<Rightarrow> if n < n' then (k, v) # (k', v') # ps
                             else (k', v') # set_prop ps k v)))"

text \<open>The value is an object: neither a primitive nor \<^verbatim>\<open>null\<close>.\<close>

definition is_object :: "jsvalue \<Rightarrow> bool" where
  "is_object v =
     (case v of
        Bytes _ \<Rightarrow> True
      | Arr _ \<Rightarrow> True
      | Obj _ \<Rightarrow> True
      | ProtoObj _ _ \<Rightarrow> True
      | Other t \<Rightarrow> t = ''object'' \<or> t = ''function''
      | _ \<Rightarrow> False)"

text \<open>
  \<^verbatim>\<open>Object.prototype\<close> has the accessor property \<^verbatim>\<open>__proto__\<close>. An object with the
  prototype \<open>p\<close> inherits it unless the prototype chain ends before
  \<^verbatim>\<open>Object.prototype\<close> (at \<^verbatim>\<open>null\<close>) or an object on the chain has an own property
  of that name.
\<close>

fun inherits_proto_accessor :: "jsvalue \<Rightarrow> bool" where
  "inherits_proto_accessor Null = False"
| "inherits_proto_accessor (Obj kvs) = (js ''__proto__'' \<notin> fst ` set kvs)"
| "inherits_proto_accessor (ProtoObj p kvs) =
     (js ''__proto__'' \<notin> fst ` set kvs \<and> inherits_proto_accessor p)"
| "inherits_proto_accessor _ = True"

text \<open>
  \<^verbatim>\<open>out[key] = v\<close> on the object \<open>out\<close>. For a key other than \<^verbatim>\<open>__proto__\<close>, and
  for \<^verbatim>\<open>__proto__\<close> when \<open>out\<close> has an own property of that name or does not inherit the
  accessor, the assignment sets an own property. Otherwise it runs the setter of the
  accessor, which creates no property: it makes \<open>v\<close> the prototype of \<open>out\<close> when \<open>v\<close> is
  an object or \<^verbatim>\<open>null\<close>, and does nothing when \<open>v\<close> is another primitive.
\<close>

fun assign :: "jsvalue \<Rightarrow> jsstring \<Rightarrow> jsvalue \<Rightarrow> jsvalue" where
  "assign (Obj ps) key v =
     (if key = js ''__proto__'' \<and> key \<notin> fst ` set ps
      then (if v = Null \<or> is_object v then ProtoObj v ps else Obj ps)
      else Obj (set_prop ps key v))"
| "assign (ProtoObj p ps) key v =
     (if key = js ''__proto__'' \<and> key \<notin> fst ` set ps \<and> inherits_proto_accessor p
      then (if v = Null \<or> is_object v then ProtoObj v ps else ProtoObj p ps)
      else ProtoObj p (set_prop ps key v))"
| "assign out key v = out"

text \<open>The assignments \<^verbatim>\<open>out[key] = c\<close> of a loop, one after the other.\<close>

definition assign_all :: "jsvalue \<Rightarrow> (jsstring \<times> jsvalue) list \<Rightarrow> jsvalue" where
  "assign_all out ps = foldl (\<lambda>out (key, c). assign out key c) out ps"

text \<open>The first exception raised by a sequence of computations, or all their results.\<close>

fun sequence :: "('e + 'a) list \<Rightarrow> 'e + 'a list" where
  "sequence [] = Inr []"
| "sequence (Inl e # _) = Inl e"
| "sequence (Inr x # rs) = (case sequence rs of Inl e \<Rightarrow> Inl e | Inr xs \<Rightarrow> Inr (x # xs))"

text \<open>
  \<^verbatim>\<open>canonicalizeJson\<close>. The cases are tried in the order of the source. A plain object
  (\<^verbatim>\<open>isPlainObject\<close>) is one whose prototype is \<^verbatim>\<open>Object.prototype\<close> or
  \<^verbatim>\<open>null\<close>. For a plain object the loop runs over \<^verbatim>\<open>Object.keys(value).sort()\<close>;
  the keys of an object are distinct, so visiting the properties sorted by key is the same
  traversal, and the properties are assigned to the fresh object \<open>out\<close>, \<^verbatim>\<open>{}\<close>, one
  by one in that order.
\<close>

function canonicalizeJson :: "jsvalue \<Rightarrow> js_error + jsvalue" where
  "canonicalizeJson Undefined =
     Inl (Error [Lit ''Snowy SDK: undefined values are not allowed in hashed payloads''])"
| "canonicalizeJson Null = Inr Null"
| "canonicalizeJson (Str s) = Inr (Str s)"
| "canonicalizeJson (Bool b) = Inr (Bool b)"
| "canonicalizeJson (Num n) =
     (case assertJsonSafeNumber n of Some e \<Rightarrow> Inl e | None \<Rightarrow> Inr (Num n))"
| "canonicalizeJson (Bytes b) =
     Inl (Error [Lit ''Snowy SDK: Uint8Array is not JSON-canonical; encode to base58/base64 string before hashing''])"
| "canonicalizeJson (Arr vs) =
     (case sequence (map canonicalizeJson vs) of
        Inl e \<Rightarrow> Inl e
      | Inr ws \<Rightarrow> Inr (Arr ws))"
| "canonicalizeJson (Obj kvs) =
     (case sequence
             (map (\<lambda>(key, v).
                     if v = Undefined
                     then Inl (Error [Lit ''Snowy SDK: undefined values are not allowed in hashed payloads''])
                     else (case canonicalizeJson v of Inl e \<Rightarrow> Inl e | Inr c \<Rightarrow> Inr (key, c)))
                  (sort_key fst kvs)) of
        Inl e \<Rightarrow> Inl e
      | Inr ps \<Rightarrow> Inr (assign_all (Obj []) ps))"
| "canonicalizeJson (ProtoObj p kvs) =
     (if p = Null
      then (case sequence
                   (map (\<lambda>(key, v).
                           if v = Undefined
                           then Inl (Error [Lit ''Snowy SDK: undefined values are not allowed in hashed payloads''])
                           else (case canonicalizeJson v of Inl e \<Rightarrow> Inl e | Inr c \<Rightarrow> Inr (key, c)))
                        (sort_key fst kvs)) of
              Inl e \<Rightarrow> Inl e
            | Inr ps \<Rightarrow> Inr (assign_all (Obj []) ps))
      else Inl (Error [Lit ''Snowy SDK: unsupported value type for hashing: '',
                       ObjTag (ProtoObj p kvs)]))"
| "canonicalizeJson (Other t) =
     Inl (Error [Lit ''Snowy SDK: unsupported value type for hashing: '', ObjTag (Other t)])"
  by pat_completeness auto
termination
proof (relation "measure size")
  show "wf (measure size)" by simp
next
  fix vs :: "jsvalue list" and v
  assume "v \<in> set vs"
  then show "(v, Arr vs) \<in> measure size"
    by (induction vs) auto
next
  fix kvs :: "(jsstring \<times> jsvalue) list" and x key v
  assume "x \<in> set (sort_key fst kvs)" and "(key, v) = x"
  then have "(key, v) \<in> set kvs" by simp
  then show "(v, Obj kvs) \<in> measure size"
    by (induction kvs) auto
next
  fix p and kvs :: "(jsstring \<times> jsvalue) list" and x key v
  assume "x \<in> set (sort_key fst kvs)" and "(key, v) = x"
  then have "(key, v) \<in> set kvs" by simp
  then show "(v, ProtoObj p kvs) \<in> measure size"
    by (induction kvs) auto
qed

text \<open>
  \<^verbatim>\<open>utf8Encode\<close> is \<^verbatim>\<open>new TextEncoder().encode(input)\<close>: the code units are read as
  UTF-16 (a surrogate pair is one code point, an unpaired surrogate becomes U+FFFD) and
  every code point is written in UTF-8.
\<close>

definition is_high_surrogate :: "16 word \<Rightarrow> bool" where
  "is_high_surrogate c = (0xD800 \<le> c \<and> c \<le> 0xDBFF)"

definition is_low_surrogate :: "16 word \<Rightarrow> bool" where
  "is_low_surrogate c = (0xDC00 \<le> c \<and> c \<le> 0xDFFF)"

definition scalar_value :: "16 word \<Rightarrow> nat" where
  "scalar_value c = (if is_high_surrogate c \<or> is_low_surrogate c then 0xFFFD else unat c)"

fun utf16_decode :: "jsstring \<Rightarrow> nat list" where
  "utf16_decode [] = []"
| "utf16_decode [c] = [scalar_value c]"
| "utf16_decode (c # d # cs) =
     (if is_high_surrogate c \<and> is_low_surrogate d
      then (0x10000 + (unat c - 0xD800) * 0x400 + (unat d - 0xDC00)) # utf16_decode cs
      else scalar_value c # utf16_decode (d # cs))"

definition utf8_bytes :: "nat \<Rightarrow> bytes" where
  "utf8_bytes cp =
     (if cp < 0x80 then [of_nat cp]
      else if cp < 0x800 then [of_nat (0xC0 + cp div 0x40), of_nat (0x80 + cp mod 0x40)]
      else if cp < 0x10000 then
        [of_nat (0xE0 + cp div 0x1000), of_nat (0x80 + cp div 0x40 mod 0x40),
         of_nat (0x80 + cp mod 0x40)]
      else
        [of_nat (0xF0 + cp div 0x40000), of_nat (0x80 + cp div 0x1000 mod 0x40),
         of_nat (0x80 + cp div 0x40 mod 0x40), of_nat (0x80 + cp mod 0x40)])"

definition utf8Encode :: "jsstring \<Rightarrow> bytes" where
  "utf8Encode input = concat (map utf8_bytes (utf16_decode input))"

section \<open>The platform and the injected collaborators\<close>

text \<open>
  An asynchronous call returns, throws (its promise rejects) or never settles.
\<close>

datatype 'a outcome = Returns 'a | Throws js_error | Pending

text \<open>The externally visible actions of a call, in the order they happen.\<close>

datatype event =
    Sha256 bytes
  | SignMessage bytes
  | Fetch jsstring jsstring

type_synonym 'a run = "event list \<times> 'a outcome"

text \<open>\<^verbatim>\<open>await m\<close> followed by the rest of the function body.\<close>

definition await :: "'a run \<Rightarrow> ('a \<Rightarrow> 'b run) \<Rightarrow> 'b run" where
  "await m rest =
     (case m of
        (evs, Returns x) \<Rightarrow> (case rest x of (evs', r) \<Rightarrow> (evs @ evs', r))
      | (evs, Throws e) \<Rightarrow> (evs, Throws e)
      | (evs, Pending) \<Rightarrow> (evs, Pending))"

record http_response =
  status :: nat
  statusText :: jsstring
  bodyText :: jsstring

text \<open>
  What the code takes from outside the repository: the \<^verbatim>\<open>bs58\<close> package (decoding
  throws on a string that is not base58), the platform's SHA-256 (\<^verbatim>\<open>sha256Raw\<close>
  picks WebCrypto or Node's \<^verbatim>\<open>crypto\<close> and throws when there is none),
  \<^verbatim>\<open>JSON.stringify\<close> (the text of a value, or the exception it throws, as it does for
  a value that holds a bigint or whose \<^verbatim>\<open>toJSON\<close> throws; the values it is given here
  are not \<^verbatim>\<open>undefined\<close>, functions or symbols, for which it has no text),
  \<^verbatim>\<open>JSON.parse\<close>, \<^verbatim>\<open>Date.now()\<close>, the conversion of a value that is not a
  primitive to a string (\<open>ToString\<close>: the text, or the exception it throws, a
  \<^verbatim>\<open>TypeError\<close> for a symbol and for an object without a conversion method that
  yields a primitive), the timers (\<open>timer_delay env t\<close> is the time in ms after which a
  timer set by \<^verbatim>\<open>setTimeout\<close> with the delay \<open>t\<close> fires: the delay itself while it is
  below \<open>2^31\<close>, and the timer fires at once when the delay is longer than a signed 32-bit
  integer holds), and the network: \<open>exchange env url body\<close> says at which time (in ms
  after the call) the HTTP exchange for that request completes if nothing aborts it, and
  with what: a response whose body has been read, or a network fault. \<open>None\<close> is a
  server that never answers.
\<close>

record env =
  bs58_decode :: "jsstring \<Rightarrow> bytes option"
  bs58_encode :: "bytes \<Rightarrow> jsstring"
  sha256Raw :: "bytes \<Rightarrow> js_error + bytes"
  JSON_stringify :: "jsvalue \<Rightarrow> js_error + jsstring"
  JSON_parse :: "jsstring \<Rightarrow> js_error + jsvalue"
  Date_now :: int
  ToString :: "jsvalue \<Rightarrow> js_error + jsstring"
  timer_delay :: "nat \<Rightarrow> nat"
  exchange :: "jsstring \<Rightarrow> jsstring \<Rightarrow> (nat \<times> (js_error + http_response)) option"

text \<open>
  An \<^verbatim>\<open>AbortSignal\<close>: the time at which it aborts and the reason it aborts with, or
  \<open>None\<close> when it never aborts.
\<close>

datatype AbortSignal = AbortSignal "(nat \<times> js_error) option"

text \<open>
  \<^verbatim>\<open>fetch\<close> followed by \<^verbatim>\<open>res.text()\<close>, as the Fetch standard has it: the promise
  rejects with the signal's reason when the signal aborts before the exchange completes,
  and otherwise settles the way the exchange does.
\<close>

definition fetchFn :: "env \<Rightarrow> jsstring \<Rightarrow> jsstring \<Rightarrow> AbortSignal option \<Rightarrow> http_response outcome" where
  "fetchFn env url body signal =
     (let aborted = (case signal of Some (AbortSignal a) \<Rightarrow> a | None \<Rightarrow> None) in
      case exchange env url body of
        None \<Rightarrow> (case aborted of None \<Rightarrow> Pending | Some (ta, reason) \<Rightarrow> Throws reason)
      | Some (t, r) \<Rightarrow>
          (case aborted of
             None \<Rightarrow> (case r of Inl e \<Rightarrow> Throws e | Inr res \<Rightarrow> Returns res)
           | Some (ta, reason) \<Rightarrow>
               if ta < t then Throws reason
               else (case r of Inl e \<Rightarrow> Throws e | Inr res \<Rightarrow> Returns res)))"

section \<open>crypto/hash.ts: hashing\<close>

definition sha256 :: "env \<Rightarrow> bytes \<Rightarrow> bytes run" where
  "sha256 env data =
     ([Sha256 data], case sha256Raw env data of Inl e \<Rightarrow> Throws e | Inr digest \<Rightarrow> Returns digest)"

definition hashDeterministicJson :: "env \<Rightarrow> jsvalue \<Rightarrow> (bytes \<times> jsstring) run" where
  "hashDeterministicJson env v =
     (case canonicalizeJson v of
        Inl e \<Rightarrow> ([], Throws e)
      | Inr canonical \<Rightarrow>
          (case JSON_stringify env canonical of
             Inl e \<Rightarrow> ([], Throws e)
           | Inr json \<Rightarrow>
               await (sha256 env (utf8Encode json))
                 (\<lambda>digest. ([], Returns (digest, bs58_encode env digest)))))"

section \<open>crypto/signer.ts\<close>

definition ensureBase58PublicKey :: "env \<Rightarrow> jsstring \<Rightarrow> js_error option" where
  "ensureBase58PublicKey env pk =
     (case bs58_decode env pk of
        None \<Rightarrow> Some (Error [Lit ''Snowy SDK: wallet.publicKey must be a valid base58 string''])
      | Some decoded \<Rightarrow>
          if length decoded \<noteq> 32
          then Some (Error [Lit ''Snowy SDK: wallet.publicKey must decode to 32 bytes (got '',
                            Interp (Num (Finite (of_nat (length decoded)))), Lit '')''])
          else None)"

record SnowyWallet =
  publicKey :: jsstring
  signMessage :: "bytes \<Rightarrow> jsvalue outcome"

definition signHash :: "env \<Rightarrow> SnowyWallet \<Rightarrow> jsvalue \<Rightarrow> jsstring run" where
  "signHash env wallet hash32 =
     (case ensureBase58PublicKey env (publicKey wallet) of
        Some e \<Rightarrow> ([], Throws e)
      | None \<Rightarrow>
          (case hash32 of
             Bytes h \<Rightarrow>
               if length h \<noteq> 32
               then ([], Throws (Error [Lit ''Snowy SDK: expected a 32-byte hash to sign'']))
               else await ([SignMessage h], signMessage wallet h)
                      (\<lambda>sig. case sig of
                          Bytes s \<Rightarrow>
                            if length s \<noteq> 64
                            then ([], Throws (Error [Lit ''Snowy SDK: signature must be 64 bytes (got '',
                                                     Interp (Num (Finite (of_nat (length s)))), Lit '')'']))
                            else ([], Returns (bs58_encode env s))
                        | _ \<Rightarrow> ([], Throws (Error [Lit ''Snowy SDK: wallet.signMessage must return Uint8Array''])))
           | _ \<Rightarrow> ([], Throws (Error [Lit ''Snowy SDK: expected a 32-byte hash to sign'']))))"

section \<open>client/Transport.ts\<close>

text \<open>
  The constructed \<^verbatim>\<open>Transport\<close>: its default timeout. Its \<^verbatim>\<open>fetchFn\<close> is the
  platform's, \<^const>\<open>fetchFn\<close>. A timeout is a whole number of milliseconds.
\<close>

record Transport =
  timeoutMs :: "nat option"

record postJson_init =
  init_timeoutMs :: "nat option"
  init_signal :: "AbortSignal option"

definition ok :: "http_response \<Rightarrow> bool" where
  "ok res = (200 \<le> status res \<and> status res \<le> 299)"

text \<open>
  The \<^verbatim>\<open>try\<close> block of \<^verbatim>\<open>postJson\<close>. The controller's signal aborts when the
  timer set with the delay \<open>timeoutMs\<close> fires, with the reason the timer callback passes.
  The body is serialised when the arguments of \<^verbatim>\<open>fetchFn\<close> are evaluated, before the
  call.
\<close>

definition postJson_try ::
  "env \<Rightarrow> Transport \<Rightarrow> jsstring \<Rightarrow> jsvalue \<Rightarrow> postJson_init option \<Rightarrow> jsvalue run" where
  "postJson_try env this url body init =
     (let tmo = (case (case init of Some i \<Rightarrow> init_timeoutMs i | None \<Rightarrow> None) of
                   Some t \<Rightarrow> Some t
                 | None \<Rightarrow> timeoutMs this);
          controller =
            (case tmo of
               Some t \<Rightarrow>
                 if t \<noteq> 0
                 then Some (AbortSignal (Some (timer_delay env t,
                                               Error [Lit ''Snowy SDK: request timeout''])))
                 else None
             | None \<Rightarrow> None);
          signal = (case (case init of Some i \<Rightarrow> init_signal i | None \<Rightarrow> None) of
                      Some s \<Rightarrow> Some s
                    | None \<Rightarrow> controller)
      in case JSON_stringify env body of
           Inl e \<Rightarrow> ([], Throws e)
         | Inr payload \<Rightarrow>
             await ([Fetch url payload], fetchFn env url payload signal)
               (\<lambda>res.
                  if \<not> ok res
                  then ([], Throws (SnowyHttpError (status res) (statusText res) url (bodyText res)))
                  else if length (bodyText res) = 0
                  then ([], Throws (SnowyTransportError [Lit ''Snowy SDK: empty JSON response body''] None))
                  else (case JSON_parse env (bodyText res) of
                          Inr parsed \<Rightarrow> ([], Returns parsed)
                        | Inl e \<Rightarrow>
                            ([], Throws (SnowyTransportError
                                           [Lit ''Snowy SDK: failed to parse JSON response''] (Some e))))))"

text \<open>
  The \<^verbatim>\<open>catch\<close> block. The \<^verbatim>\<open>finally\<close> block clears the timer, which changes
  nothing of what the call returns or throws.
\<close>

definition postJson_catch :: "js_error \<Rightarrow> js_error" where
  "postJson_catch e =
     (case e of
        SnowyHttpError _ _ _ _ \<Rightarrow> e
      | SnowyTransportError _ _ \<Rightarrow> e
      | _ \<Rightarrow> SnowyTransportError [Lit ''Snowy SDK: network or fetch failure''] (Some e))"

definition postJson ::
  "env \<Rightarrow> Transport \<Rightarrow> jsstring \<Rightarrow> jsvalue \<Rightarrow> postJson_init option \<Rightarrow> jsvalue run" where
  "postJson env this url body init =
     (case postJson_try env this url body init of
        (evs, Throws e) \<Rightarrow> (evs, Throws (postJson_catch e))
      | r \<Rightarrow> r)"

section \<open>client/SnowyClient.ts\<close>

text \<open>
  \<^verbatim>\<open>String.prototype.trim\<close> strips the white space and line terminator code units
  of the language from both ends.
\<close>

definition is_white_space :: "16 word \<Rightarrow> bool" where
  "is_white_space c =
     (c \<in> {0x9, 0xA, 0xB, 0xC, 0xD, 0x20, 0xA0, 0x1680, 0x2028, 0x2029, 0x202F, 0x205F, 0x3000, 0xFEFF}
      \<or> (0x2000 \<le> c \<and> c \<le> 0x200A))"

definition trim :: "jsstring \<Rightarrow> jsstring" where
  "trim s = rev (dropWhile is_white_space (rev (dropWhile is_white_space s)))"

definition typeof :: "jsvalue \<Rightarrow> string" where
  "typeof v =
     (case v of
        Undefined \<Rightarrow> ''undefined''
      | Null \<Rightarrow> ''object''
      | Bool _ \<Rightarrow> ''boolean''
      | Num _ \<Rightarrow> ''number''
      | Str _ \<Rightarrow> ''string''
      | Bytes _ \<Rightarrow> ''object''
      | Arr _ \<Rightarrow> ''object''
      | Obj _ \<Rightarrow> ''object''
      | ProtoObj _ _ \<Rightarrow> ''object''
      | Other t \<Rightarrow> t)"

text \<open>\<^verbatim>\<open>!v\<close> is \<open>\<not> truthy v\<close>.\<close>

definition truthy :: "jsvalue \<Rightarrow> bool" where
  "truthy v =
     (case v of
        Undefined \<Rightarrow> False
      | Null \<Rightarrow> False
      | Bool b \<Rightarrow> b
      | Num n \<Rightarrow> n \<noteq> NaN \<and> n \<noteq> Finite 0
      | Str s \<Rightarrow> s \<noteq> []
      | _ \<Rightarrow> True)"

text \<open>
  Reading a named property, \<^verbatim>\<open>r.name\<close>: the own property of that name, or else the
  property the prototype has. None of the names the code reads is a property of
  \<^verbatim>\<open>Object.prototype\<close>, of an array or of another built-in value.
\<close>

fun get_prop :: "jsvalue \<Rightarrow> string \<Rightarrow> jsvalue" where
  "get_prop (Obj kvs) name = (case map_of kvs (js name) of Some v \<Rightarrow> v | None \<Rightarrow> Undefined)"
| "get_prop (ProtoObj p kvs) name =
     (case map_of kvs (js name) of Some v \<Rightarrow> v | None \<Rightarrow> get_prop p name)"
| "get_prop _ name = Undefined"

definition assertNonEmptyString :: "string \<Rightarrow> jsvalue \<Rightarrow> js_error option" where
  "assertNonEmptyString name v =
     (if typeof v \<noteq> ''string'' \<or> (case v of Str s \<Rightarrow> length (trim s) = 0 | _ \<Rightarrow> True)
      then Some (Error [Lit (''Snowy SDK: '' @ name @ '' must be a non-empty string'')])
      else None)"

text \<open>
  The exception that evaluating \<^verbatim>\<open>${v}\<close> in a template literal throws, if it throws.
  A primitive other than a symbol (\<^verbatim>\<open>undefined\<close>, \<^verbatim>\<open>null\<close>, a boolean, a number,
  a bigint, a string) always has a text; any other value is converted by
  \<^const>\<open>ToString\<close>.
\<close>

definition interpolation_throws :: "env \<Rightarrow> jsvalue \<Rightarrow> js_error option" where
  "interpolation_throws env v =
     (if v = Null \<or> typeof v \<in> {''undefined'', ''boolean'', ''number'', ''bigint'', ''string''}
      then None
      else (case ToString env v of Inl e \<Rightarrow> Some e | Inr _ \<Rightarrow> None))"

text \<open>
  \<^verbatim>\<open>assertModel\<close>: the message of its error is built before the error is, so that an
  exception of the interpolation is thrown instead.
\<close>

definition assertModel :: "env \<Rightarrow> jsvalue \<Rightarrow> js_error option" where
  "assertModel env m =
     (if m \<noteq> Str (js ''snowy-base'') \<and> m \<noteq> Str (js ''snowy-meme'') \<and> m \<noteq> Str (js ''snowy-code'')
      then (case interpolation_throws env m of
              Some e \<Rightarrow> Some e
            | None \<Rightarrow> Some (Error [Lit ''Snowy SDK: unsupported model: '', Interp m]))
      else None)"

definition assertNumber :: "string \<Rightarrow> jsvalue \<Rightarrow> js_error option" where
  "assertNumber name v =
     (if typeof v \<noteq> ''number'' \<or> (case v of Num n \<Rightarrow> \<not> isFinite n | _ \<Rightarrow> True)
      then Some (Error [Lit (''Snowy SDK: '' @ name @ '' must be a finite number'')])
      else None)"

definition isInteger :: "jsvalue \<Rightarrow> bool" where
  "isInteger v = (case v of Num (Finite r) \<Rightarrow> r \<in> \<int> | _ \<Rightarrow> False)"

definition assertInt :: "string \<Rightarrow> jsvalue \<Rightarrow> js_error option" where
  "assertInt name v =
     (case assertNumber name v of
        Some e \<Rightarrow> Some e
      | None \<Rightarrow>
          if \<not> isInteger v
          then Some (Error [Lit (''Snowy SDK: '' @ name @ '' must be an integer'')])
          else None)"

text \<open>The exception of the first statement of a list that throws, if any does.\<close>

fun first_thrown :: "js_error option list \<Rightarrow> js_error option" where
  "first_thrown [] = None"
| "first_thrown (Some e # _) = Some e"
| "first_thrown (None # rest) = first_thrown rest"

text \<open>
  The statements of \<^verbatim>\<open>validateGenerateResponse\<close> on the properties of the response
  \<open>r\<close>, its usage \<open>u\<close> and its verification \<open>v\<close>.
\<close>

definition response_checks :: "env \<Rightarrow> jsvalue \<Rightarrow> js_error option list" where
  "response_checks env r =
     (let u = get_prop r ''usage''; v = get_prop r ''verification'' in
      [if typeof (get_prop r ''output'') \<noteq> ''string''
       then Some (Error [Lit ''Snowy SDK: response.output must be a string'']) else None,
       if typeof (get_prop r ''model'') \<noteq> ''string''
       then Some (Error [Lit ''Snowy SDK: response.model must be a string'']) else None,
       assertModel env (get_prop r ''model''),
       if \<not> truthy u \<or> typeof u \<noteq> ''object''
       then Some (Error [Lit ''Snowy SDK: response.usage missing'']) else None,
       if typeof (get_prop u ''promptTokens'') \<noteq> ''number''
       then Some (Error [Lit ''Snowy SDK: usage.promptTokens missing'']) else None,
       if typeof (get_prop u ''completionTokens'') \<noteq> ''number''
       then Some (Error [Lit ''Snowy SDK: usage.completionTokens missing'']) else None,
       if typeof (get_prop u ''totalTokens'') \<noteq> ''number''
       then Some (Error [Lit ''Snowy SDK: usage.totalTokens missing'']) else None,
       if \<not> truthy v \<or> typeof v \<noteq> ''object''
       then Some (Error [Lit ''Snowy SDK: response.verification missing'']) else None,
       if typeof (get_prop v ''requestHash'') \<noteq> ''string''
       then Some (Error [Lit ''Snowy SDK: verification.requestHash missing'']) else None,
       if typeof (get_prop v ''signer'') \<noteq> ''string''
       then Some (Error [Lit ''Snowy SDK: verification.signer missing'']) else None,
       if typeof (get_prop v ''programId'') \<noteq> ''string''
       then Some (Error [Lit ''Snowy SDK: verification.programId missing'']) else None])"

text \<open>
  \<^verbatim>\<open>validateGenerateResponse\<close>: the check of \<^verbatim>\<open>resp\<close> itself, then the
  statements above in their order.
\<close>

definition validateGenerateResponse :: "env \<Rightarrow> jsvalue \<Rightarrow> js_error option" where
  "validateGenerateResponse env resp =
     (if \<not> truthy resp \<or> typeof resp \<noteq> ''object''
      then Some (Error [Lit ''Snowy SDK: invalid response''])
      else first_thrown (response_checks env resp))"

text \<open>The constructed client.\<close>

record SnowyClient =
  endpoint :: jsstring
  programId :: jsstring
  transport :: Transport

text \<open>
  The argument \<^verbatim>\<open>input\<close> as it arrives at run time; an absent \<^verbatim>\<open>timestamp\<close> is
  \<open>Undefined\<close>.
\<close>

record SnowyGenerateInput =
  model :: jsvalue
  prompt :: jsvalue
  temperature :: jsvalue
  maxTokens :: jsvalue
  timestamp :: jsvalue

text \<open>\<^verbatim>\<open>input.timestamp ?? Date.now()\<close>\<close>

definition timestamp_or_now :: "env \<Rightarrow> SnowyGenerateInput \<Rightarrow> jsvalue" where
  "timestamp_or_now env input =
     (if timestamp input = Undefined \<or> timestamp input = Null
      then Num (Finite (of_int (Date_now env)))
      else timestamp input)"

text \<open>
  The validation statements at the head of \<^verbatim>\<open>generate\<close>: those on \<^verbatim>\<open>input\<close>,
  and all of them, the check of the wallet's key first.
\<close>

definition input_checks :: "env \<Rightarrow> SnowyGenerateInput \<Rightarrow> js_error option list" where
  "input_checks env input =
     [assertModel env (model input),
      assertNonEmptyString ''prompt'' (prompt input),
      assertNumber ''temperature'' (temperature input),
      assertInt ''maxTokens'' (maxTokens input),
      assertInt ''timestamp'' (timestamp_or_now env input)]"

definition arg_checks :: "env \<Rightarrow> SnowyWallet \<Rightarrow> SnowyGenerateInput \<Rightarrow> js_error option list" where
  "arg_checks env wallet input =
     ensureBase58PublicKey env (publicKey wallet) # input_checks env input"

text \<open>The properties of the object literal \<^verbatim>\<open>toHash\<close>, in the order written.\<close>

definition toHash_props ::
  "env \<Rightarrow> SnowyClient \<Rightarrow> SnowyWallet \<Rightarrow> SnowyGenerateInput \<Rightarrow> (jsstring \<times> jsvalue) list" where
  "toHash_props env this wallet input =
     [(js ''programId'', Str (programId this)),
      (js ''model'', model input),
      (js ''prompt'', prompt input),
      (js ''temperature'', temperature input),
      (js ''maxTokens'', maxTokens input),
      (js ''timestamp'', timestamp_or_now env input),
      (js ''signer'', Str (publicKey wallet))]"

definition toHash :: "env \<Rightarrow> SnowyClient \<Rightarrow> SnowyWallet \<Rightarrow> SnowyGenerateInput \<Rightarrow> jsvalue" where
  "toHash env this wallet input = Obj (toHash_props env this wallet input)"

text \<open>
  The first half of \<^verbatim>\<open>generate\<close>, from the validation of the arguments to the object
  literal \<^verbatim>\<open>request\<close> (the spread of \<^verbatim>\<open>toHash\<close> and two more properties). It
  yields \<^verbatim>\<open>requestHash\<close> and \<^verbatim>\<open>request\<close>.
\<close>

definition buildSignedRequest ::
  "env \<Rightarrow> SnowyClient \<Rightarrow> SnowyWallet \<Rightarrow> SnowyGenerateInput \<Rightarrow> (jsstring \<times> jsvalue) run" where
  "buildSignedRequest env this wallet input =
     (case first_thrown (arg_checks env wallet input) of
        Some e \<Rightarrow> ([], Throws e)
      | None \<Rightarrow>
          await (hashDeterministicJson env (toHash env this wallet input))
            (\<lambda>(requestHashBytes, requestHash).
               await (signHash env wallet (Bytes requestHashBytes))
                 (\<lambda>signature.
                    ([], Returns (requestHash,
                                  Obj (toHash_props env this wallet input @
                                       [(js ''requestHash'', Str requestHash),
                                        (js ''signature'', Str signature)]))))))"

text \<open>
  The statements of \<^verbatim>\<open>generate\<close> after the response has arrived: validation, then the
  three comparisons.
\<close>

definition check_response ::
  "env \<Rightarrow> SnowyClient \<Rightarrow> SnowyWallet \<Rightarrow> jsstring \<Rightarrow> jsvalue \<Rightarrow> jsvalue run" where
  "check_response env this wallet requestHash response =
     (case validateGenerateResponse env response of
        Some e \<Rightarrow> ([], Throws e)
      | None \<Rightarrow>
          let verification = get_prop response ''verification'' in
          if get_prop verification ''requestHash'' \<noteq> Str requestHash
          then ([], Throws (Error [Lit ''Snowy SDK: response verification.requestHash mismatch'']))
          else if get_prop verification ''signer'' \<noteq> Str (publicKey wallet)
          then ([], Throws (Error [Lit ''Snowy SDK: response verification.signer mismatch'']))
          else if get_prop verification ''programId'' \<noteq> Str (programId this)
          then ([], Throws (Error [Lit ''Snowy SDK: response verification.programId mismatch'']))
          else ([], Returns response))"

text \<open>\<^verbatim>\<open>SnowyClient.generate\<close>; an absent wallet is \<open>None\<close>.\<close>

definition generate ::
  "env \<Rightarrow> SnowyClient \<Rightarrow> SnowyWallet option \<Rightarrow> SnowyGenerateInput \<Rightarrow> jsvalue run" where
  "generate env this wallet_arg input =
     (case wallet_arg of
        None \<Rightarrow> ([], Throws (Error [Lit ''Snowy SDK: wallet is required'']))
      | Some wallet \<Rightarrow>
          await (buildSignedRequest env this wallet input)
            (\<lambda>(requestHash, req).
               await (postJson env (transport this) (endpoint this) req None)
                 (check_response env this wallet requestHash)))"

section \<open>Notions used to state the properties\<close>

text \<open>
  One step of the loop of \<^const>\<open>canonicalizeJson\<close> over the properties of an object: a
  property whose value is \<^verbatim>\<open>undefined\<close> raises the same exception as the recursive call
  on \<^verbatim>\<open>undefined\<close> does.
\<close>

definition canon_prop :: "jsstring \<times> jsvalue \<Rightarrow> js_error + jsstring \<times> jsvalue" where
  "canon_prop p = (case canonicalizeJson (snd p) of Inl e \<Rightarrow> Inl e | Inr c \<Rightarrow> Inr (fst p, c))"

text \<open>
  The own properties of an object after the properties \<open>ps\<close> have been set on it one after
  the other.
\<close>

definition set_props ::
  "(jsstring \<times> jsvalue) list \<Rightarrow> (jsstring \<times> jsvalue) list \<Rightarrow> (jsstring \<times> jsvalue) list" where
  "set_props out ps = foldl (\<lambda>out (key, c). set_prop out key c) out ps"

text \<open>The keys of every object inside a value are distinct, as they are in JavaScript.\<close>

fun wf_json :: "jsvalue \<Rightarrow> bool" where
  "wf_json (Arr vs) = list_all wf_json vs"
| "wf_json (Obj kvs) = (distinct (map fst kvs) \<and> list_all (\<lambda>p. wf_json (snd p)) kvs)"
| "wf_json (ProtoObj p kvs) =
     (wf_json p \<and> distinct (map fst kvs) \<and> list_all (\<lambda>p. wf_json (snd p)) kvs)"
| "wf_json _ = True"

text \<open>No object inside a value has an own property named \<^verbatim>\<open>__proto__\<close>.\<close>

fun no_proto_key :: "jsvalue \<Rightarrow> bool" where
  "no_proto_key (Arr vs) = list_all no_proto_key vs"
| "no_proto_key (Obj kvs) =
     (js ''__proto__'' \<notin> fst ` set kvs \<and> list_all (\<lambda>p. no_proto_key (snd p)) kvs)"
| "no_proto_key (ProtoObj p kvs) =
     (no_proto_key p \<and> js ''__proto__'' \<notin> fst ` set kvs \<and> list_all (\<lambda>p. no_proto_key (snd p)) kvs)"
| "no_proto_key _ = True"

text \<open>
  Two values are semantically equal and differ only in the insertion order of object keys:
  they are the same value, or arrays of such values, or objects with the same keys, in any
  order, that carry such values.
\<close>

inductive same_json :: "jsvalue \<Rightarrow> jsvalue \<Rightarrow> bool" where
  same_value: "same_json v v"
| same_Arr: "list_all2 same_json vs ws \<Longrightarrow> same_json (Arr vs) (Arr ws)"
| same_Obj: "list_all2 (\<lambda>p q. fst p = fst q \<and> same_json (snd p) (snd q)) ps qs \<Longrightarrow>
     distinct (map fst qs) \<Longrightarrow> distinct (map fst rs) \<Longrightarrow> set qs = set rs \<Longrightarrow>
     same_json (Obj ps) (Obj rs)"

text \<open>
  The keys of an object, as they are enumerated, are in the byte order of their UTF-8
  encodings.
\<close>

definition utf8_sorted_keys :: "(jsstring \<times> jsvalue) list \<Rightarrow> bool" where
  "utf8_sorted_keys kvs = sorted (map (\<lambda>p. utf8Encode (fst p)) kvs)"

text \<open>
  In every object inside a value, the keys that are not array indices are enumerated in
  strictly ascending order of their UTF-16 code units.
\<close>

fun canonical_form :: "jsvalue \<Rightarrow> bool" where
  "canonical_form (Arr vs) = list_all canonical_form vs"
| "canonical_form (Obj kvs) =
     (sorted_wrt (<) (filter (\<lambda>k. array_index k = None) (map fst kvs))
      \<and> list_all (\<lambda>p. canonical_form (snd p)) kvs)"
| "canonical_form (ProtoObj p kvs) =
     (canonical_form p
      \<and> sorted_wrt (<) (filter (\<lambda>k. array_index k = None) (map fst kvs))
      \<and> list_all (\<lambda>p. canonical_form (snd p)) kvs)"
| "canonical_form _ = True"



text \<open>The wallet's public key does not decode to exactly 32 bytes.\<close>

definition invalid_signer :: "env \<Rightarrow> SnowyWallet \<Rightarrow> bool" where
  "invalid_signer env wallet \<longleftrightarrow>
     (\<forall>d. bs58_decode env (publicKey wallet) = Some d \<longrightarrow> length d \<noteq> 32)"

text \<open>
  A field of the input is invalid: the model is not one of the three, the prompt is not a
  string with something other than white space in it, the temperature is not a finite
  number, or \<^verbatim>\<open>maxTokens\<close> or the timestamp is not a finite integer.
\<close>

definition invalid_input :: "env \<Rightarrow> SnowyGenerateInput \<Rightarrow> bool" where
  "invalid_input env input \<longleftrightarrow>
     model input \<notin> {Str (js ''snowy-base''), Str (js ''snowy-meme''), Str (js ''snowy-code'')}
     \<or> (\<forall>s. prompt input = Str s \<longrightarrow> trim s = [])
     \<or> (\<forall>r. temperature input \<noteq> Num (Finite r))
     \<or> (\<forall>r. maxTokens input = Num (Finite r) \<longrightarrow> r \<notin> \<int>)
     \<or> (\<forall>r. timestamp_or_now env input = Num (Finite r) \<longrightarrow> r \<notin> \<int>)"

text \<open>
  The timer of a transport with timeout \<open>tmo\<close> fires before the exchange \<open>ex\<close> completes.
\<close>

definition timed_out :: "env \<Rightarrow> nat option \<Rightarrow> (nat \<times> 'a) option \<Rightarrow> bool" where
  "timed_out env tmo ex =
     (case tmo of
        None \<Rightarrow> False
      | Some t \<Rightarrow>
          t \<noteq> 0 \<and> (case ex of None \<Rightarrow> True | Some (t', r) \<Rightarrow> timer_delay env t < t'))"

section \<open>A platform for the examples\<close>

text \<open>
  Base58 on the strings made of the digit \<open>1\<close> only: each \<open>1\<close> stands for one zero byte.
  The examples use no other keys, digests or signatures.
\<close>

definition ones_decode :: "jsstring \<Rightarrow> bytes option" where
  "ones_decode s = (if list_all (\<lambda>c. c = 0x31) s then Some (replicate (length s) 0) else None)"

definition ones_encode :: "bytes \<Rightarrow> jsstring" where
  "ones_encode b = replicate (length b) 0x31"

definition ones :: "nat \<Rightarrow> jsstring" where
  "ones n = replicate n 0x31"

text \<open>
  The text the example server sends and what it parses to: a response that echoes the
  request hash \<open>echoed\<close> and reports a fractional, a not-a-number and the given token count.
\<close>

definition example_text :: jsstring where
  "example_text = js ''{...}''"

definition example_response :: "jsstring \<Rightarrow> number \<Rightarrow> jsvalue" where
  "example_response echoed tot =
     Obj [(js ''output'', Str (js ''hello'')),
          (js ''model'', Str (js ''snowy-base'')),
          (js ''usage'', Obj [(js ''promptTokens'', Num (Finite (3/2))),
                              (js ''completionTokens'', Num NaN),
                              (js ''totalTokens'', Num tot)]),
          (js ''verification'', Obj [(js ''requestHash'', Str echoed),
                                     (js ''signer'', Str (ones 32)),
                                     (js ''programId'', Str (js ''SNOWy1111111111111111111111111111111111''))])]"

text \<open>
  The example platform: the digest of everything is 32 zero bytes, every value is written
  as the same text, the example text parses to \<open>parsed\<close>, the clock shows
  1730000000000, a symbol has no conversion to a string and every other value that is
  not a primitive is converted like a plain object, a timer fires after its delay, or after
  1 ms when the delay is \<open>2^31\<close> ms or more, and the server behaves as \<open>server\<close> says.
\<close>

definition example_env :: "jsvalue \<Rightarrow> (nat \<times> (js_error + http_response)) option \<Rightarrow> env" where
  "example_env parsed server =
     \<lparr>bs58_decode = ones_decode,
      bs58_encode = ones_encode,
      sha256Raw = (\<lambda>data. Inr (replicate 32 0)),
      JSON_stringify = (\<lambda>v. Inr (js ''{}'')),
      JSON_parse = (\<lambda>t. if t = example_text then Inr parsed else Inl (Foreign ''SyntaxError'')),
      Date_now = 1730000000000,
      ToString = (\<lambda>v. if v = Other ''symbol'' then Inl (Foreign ''TypeError'')
                       else Inr (js ''[object Object]'')),
      timer_delay = (\<lambda>t. if t < 2147483648 then t else 1),
      exchange = (\<lambda>url body. server)\<rparr>"

definition answers :: "nat \<Rightarrow> jsstring \<Rightarrow> (nat \<times> (js_error + http_response)) option" where
  "answers code body = Some (5, Inr \<lparr>status = code, statusText = js ''status'', bodyText = body\<rparr>)"

definition example_client :: "nat option \<Rightarrow> SnowyClient" where
  "example_client tmo =
     \<lparr>endpoint = js ''https://router.example/inference'',
      programId = js ''SNOWy1111111111111111111111111111111111'',
      transport = \<lparr>timeoutMs = tmo\<rparr>\<rparr>"

text \<open>A wallet whose key is \<open>n\<close> zero bytes and whose signatures are \<open>m\<close> zero bytes.\<close>

definition example_wallet :: "nat \<Rightarrow> nat \<Rightarrow> SnowyWallet" where
  "example_wallet n m = \<lparr>publicKey = ones n, signMessage = (\<lambda>digest. Returns (Bytes (replicate m 0)))\<rparr>"

definition example_input :: "string \<Rightarrow> SnowyGenerateInput" where
  "example_input m =
     \<lparr>model = Str (js m), prompt = Str (js ''hi''), temperature = Num (Finite (1/5)),
      maxTokens = Num (Finite 16), timestamp = Undefined\<rparr>"

text \<open>The request the example client sends for the example input.\<close>

definition example_request :: jsvalue where
  "example_request =
     Obj [(js ''programId'', Str (js ''SNOWy1111111111111111111111111111111111'')),
          (js ''model'', Str (js ''snowy-base'')),
          (js ''prompt'', Str (js ''hi'')),
          (js ''temperature'', Num (Finite (1/5))),
          (js ''maxTokens'', Num (Finite 16)),
          (js ''timestamp'', Num (Finite 1730000000000)),
          (js ''signer'', Str (ones 32)),
          (js ''requestHash'', Str (ones 32)),
          (js ''signature'', Str (ones 64))]"

text \<open>
  A response whose verification fields match the example request and whose total token
  count is a string.
\<close>

definition example_bad_usage :: jsvalue where
  "example_bad_usage =
     Obj [(js ''output'', Str (js ''hello'')),
          (js ''model'', Str (js ''snowy-base'')),
          (js ''usage'', Obj [(js ''promptTokens'', Num (Finite 1)),
                              (js ''completionTokens'', Num (Finite 2)),
                              (js ''totalTokens'', Str (js ''3''))]),
          (js ''verification'', Obj [(js ''requestHash'', Str (ones 32)),
                                     (js ''signer'', Str (ones 32)),
                                     (js ''programId'', Str (js ''SNOWy1111111111111111111111111111111111''))])]"



section \<open>Canonicalization: lemmas\<close>

lemma sorted_keys_unique:
  assumes "distinct (map fst qs)" "distinct (map fst rs)" "set qs = set rs"
  shows "sort_key fst qs = sort_key fst rs"
proof (rule map_sorted_distinct_set_unique [where f = fst])
  show "inj_on fst (set (sort_key fst qs) \<union> set (sort_key fst rs))"
    using assms by (simp add: distinct_map)
  show "distinct (map fst (sort_key fst qs))" using assms(1) by (simp add: distinct_map)
  show "distinct (map fst (sort_key fst rs))" using assms(2) by (simp add: distinct_map)
qed (use assms in simp_all)

lemma list_all2_insort_key:
  assumes "list_all2 R xs ys" "R x y" "\<And>a b. R a b \<Longrightarrow> fst a = fst b"
  shows "list_all2 R (insort_key fst x xs) (insort_key fst y ys)"
  using assms(1)
proof (induction rule: list_all2_induct)
  case Nil
  then show ?case using assms(2) by simp
next
  case (Cons a as b bs)
  then show ?case using assms(2) assms(3)[of a b] assms(3)[of x y] by auto
qed

lemma list_all2_sort_key:
  assumes "list_all2 R xs ys" "\<And>a b. R a b \<Longrightarrow> fst a = fst b"
  shows "list_all2 R (sort_key fst xs) (sort_key fst ys)"
  using assms(1)
  by (induction rule: list_all2_induct) (auto intro: list_all2_insort_key assms(2))

lemma canon_prop_fun:
  "(\<lambda>(key, v). if v = Undefined
          then Inl (Error [Lit ''Snowy SDK: undefined values are not allowed in hashed payloads''])
          else (case canonicalizeJson v of Inl e \<Rightarrow> Inl e | Inr c \<Rightarrow> Inr (key, c))) = canon_prop"
  by (auto simp: canon_prop_def fun_eq_iff split: sum.splits)

lemma canon_Obj:
  "canonicalizeJson (Obj kvs) =
     (case sequence (map canon_prop (sort_key fst kvs)) of
        Inl e \<Rightarrow> Inl e
      | Inr ps \<Rightarrow> Inr (assign_all (Obj []) ps))"
  using canon_prop_fun by simp

lemma canon_ProtoObj_Null:
  "canonicalizeJson (ProtoObj Null kvs) =
     (case sequence (map canon_prop (sort_key fst kvs)) of
        Inl e \<Rightarrow> Inl e
      | Inr ps \<Rightarrow> Inr (assign_all (Obj []) ps))"
  using canon_prop_fun by simp

lemma canon_ProtoObj_other:
  "p \<noteq> Null \<Longrightarrow> canonicalizeJson (ProtoObj p kvs) =
     Inl (Error [Lit ''Snowy SDK: unsupported value type for hashing: '', ObjTag (ProtoObj p kvs)])"
  by simp

lemma same_json_canonical: "same_json a b \<Longrightarrow> canonicalizeJson a = canonicalizeJson b"
proof (induction rule: same_json.induct)
  case (same_value v)
  show ?case by simp
next
  case (same_Arr vs ws)
  then have "map canonicalizeJson vs = map canonicalizeJson ws"
    by (induction rule: list_all2_induct) auto
  then show ?case by simp
next
  case (same_Obj ps qs rs)
  let ?R = "\<lambda>p q. fst p = fst q \<and> same_json (snd p) (snd q) \<and> canonicalizeJson (snd p) = canonicalizeJson (snd q)"
  have "list_all2 ?R (sort_key fst ps) (sort_key fst qs)"
    by (rule list_all2_sort_key) (use same_Obj.IH in auto)
  then have "map canon_prop (sort_key fst ps) = map canon_prop (sort_key fst qs)"
    by (induction rule: list_all2_induct) (auto simp: canon_prop_def split: sum.splits)
  moreover have "sort_key fst qs = sort_key fst rs"
    using same_Obj.hyps by (intro sorted_keys_unique)
  ultimately show ?case by (simp only: canon_Obj)
qed

lemma sequence_map_Inr: "sequence (map Inr xs) = Inr xs"
  by (induction xs) auto

lemma sequence_Inr_D: "sequence rs = Inr xs \<Longrightarrow> rs = map Inr xs"
  by (induction rs arbitrary: xs rule: sequence.induct) (auto split: sum.splits)

lemma set_prop_fresh:
  "k \<notin> fst ` set out \<Longrightarrow> set (set_prop out k v) = insert (k, v) (set out)"
proof (induction out)
  case Nil
  show ?case by simp
next
  case (Cons p out)
  obtain k' v' where p: "p = (k', v')" by (cases p)
  from Cons.prems have ne: "k' \<noteq> k" and fresh: "k \<notin> fst ` set out" by (auto simp: p)
  have ih: "set (set_prop out k v) = insert (k, v) (set out)" by (rule Cons.IH [OF fresh])
  show ?case
    unfolding p set_prop.simps using ne fresh ih
    by (simp split: option.splits) blast
qed

lemma set_prop_keys: "fst ` set (set_prop out k v) = insert k (fst ` set out)"
proof (induction out)
  case Nil
  show ?case by simp
next
  case (Cons p out)
  obtain k' v' where p: "p = (k', v')" by (cases p)
  show ?case
  proof (cases "k' = k")
    case True
    then show ?thesis unfolding p by simp
  next
    case False
    have "fst ` set ((k', v') # set_prop out k v) = insert k (fst ` set ((k', v') # out))"
      using Cons.IH by (simp add: insert_commute)
    moreover have "fst ` set ((k, v) # (k', v') # out) = insert k (fst ` set ((k', v') # out))"
      by simp
    ultimately show ?thesis
      unfolding p set_prop.simps using False
      by (simp only: if_False split: option.splits if_splits) simp
  qed
qed

lemma set_prop_keys_fresh:
  "k \<notin> fst ` set out \<Longrightarrow> distinct (map fst out) \<Longrightarrow> distinct (map fst (set_prop out k v))"
proof (induction out)
  case Nil
  show ?case by simp
next
  case (Cons p out)
  obtain k' v' where p: "p = (k', v')" by (cases p)
  from Cons.prems have ne: "k' \<noteq> k" and fresh: "k \<notin> fst ` set out"
    and d: "distinct (map fst out)" and k': "k' \<notin> fst ` set out" by (auto simp: p)
  have ih: "distinct (map fst (set_prop out k v))" by (rule Cons.IH [OF fresh d])
  have s: "fst ` set (set_prop out k v) = insert k (fst ` set out)"
    by (simp add: set_prop_fresh [OF fresh])
  have "k' \<notin> fst ` set (set_prop out k v)" unfolding s using ne k' by simp
  then show ?case
    unfolding p set_prop.simps using ne fresh ih d k'
    by (simp split: option.splits)
qed

lemma set_props_Cons: "set_props out ((k, v) # ps) = set_props (set_prop out k v) ps"
  by (simp add: set_props_def)

lemma set_props_fresh:
  "distinct (map fst out @ map fst ps) \<Longrightarrow>
     set (set_props out ps) = set out \<union> set ps \<and> distinct (map fst (set_props out ps))"
proof (induction ps arbitrary: out)
  case Nil
  then show ?case by (simp add: set_props_def)
next
  case (Cons p ps)
  obtain k v where p: "p = (k, v)" by (cases p)
  from Cons.prems have fresh: "k \<notin> fst ` set out" and d: "distinct (map fst out)"
    and dps: "distinct (map fst ps)" and kps: "k \<notin> fst ` set ps"
    and disj: "fst ` set out \<inter> fst ` set ps = {}"
    by (auto simp: p)
  have s: "set (set_prop out k v) = insert (k, v) (set out)" by (rule set_prop_fresh [OF fresh])
  have s': "fst ` set (set_prop out k v) = insert k (fst ` set out)" by (simp add: s)
  have "distinct (map fst (set_prop out k v) @ map fst ps)"
    using set_prop_keys_fresh [OF fresh d, of v] dps kps disj unfolding distinct_append set_map s'
    by blast
  from Cons.IH [OF this] show ?case unfolding p set_props_Cons s by simp
qed

lemma sort_set_props:
  assumes "distinct (map fst ps)" "sorted (map fst ps)"
  shows "sort_key fst (set_props [] ps) = ps"
proof -
  have "distinct (map fst [] @ map fst ps)" using assms(1) by simp
  from set_props_fresh [OF this]
  have a: "set (set_props [] ps) = set ps" and b: "distinct (map fst (set_props [] ps))"
    by simp_all
  have "sort_key fst (set_props [] ps) = sort_key fst ps"
    by (rule sorted_keys_unique [OF b assms(1) a])
  then show ?thesis using assms(2) by (simp add: sort_key_id_if_sorted)
qed

lemma assign_all_Cons: "assign_all out ((k, v) # ps) = assign_all (assign out k v) ps"
  by (simp add: assign_all_def)

lemma assign_all_no_proto:
  "js ''__proto__'' \<notin> fst ` set ps \<Longrightarrow>
     assign_all (Obj qs) ps = Obj (set_props qs ps) \<and>
     assign_all (ProtoObj p qs) ps = ProtoObj p (set_props qs ps)"
proof (induction ps arbitrary: qs)
  case Nil
  show ?case by (simp add: assign_all_def set_props_def)
next
  case (Cons x ps)
  obtain k v where x: "x = (k, v)" by (cases x)
  from Cons.prems have k: "k \<noteq> js ''__proto__''" and r: "js ''__proto__'' \<notin> fst ` set ps"
    by (auto simp: x)
  from Cons.IH [OF r, of "set_prop qs k v"] k show ?case
    unfolding x assign_all_Cons set_props_Cons by simp
qed

lemma assign_all_proto:
  assumes "distinct (map fst ps)" and "js ''__proto__'' \<notin> fst ` set qs"
  shows "assign_all (Obj qs) ps =
     (case map_of ps (js ''__proto__'') of
        None \<Rightarrow> Obj (set_props qs (filter (\<lambda>p. fst p \<noteq> js ''__proto__'') ps))
      | Some c \<Rightarrow>
          if c = Null \<or> is_object c
          then ProtoObj c (set_props qs (filter (\<lambda>p. fst p \<noteq> js ''__proto__'') ps))
          else Obj (set_props qs (filter (\<lambda>p. fst p \<noteq> js ''__proto__'') ps)))"
  using assms
proof (induction ps arbitrary: qs)
  case Nil
  show ?case by (simp add: assign_all_def set_props_def)
next
  case (Cons x ps)
  obtain k v where x: "x = (k, v)" by (cases x)
  from Cons.prems(1) have d: "distinct (map fst ps)" and kps: "k \<notin> fst ` set ps"
    by (auto simp: x)
  show ?case
  proof (cases "k = js ''__proto__''")
    case True
    with kps have np: "js ''__proto__'' \<notin> fst ` set ps" by simp
    then have "\<forall>x\<in>set ps. fst x \<noteq> js ''__proto__''" by force
    then have f: "filter (\<lambda>p. fst p \<noteq> js ''__proto__'') ps = ps"
      by (simp only: filter_id_conv)
    have a: "assign (Obj qs) k v = (if v = Null \<or> is_object v then ProtoObj v qs else Obj qs)"
      using True Cons.prems(2) by simp
    show ?thesis
      unfolding x assign_all_Cons a using True assign_all_no_proto [OF np] f
      by simp
  next
    case False
    have a: "assign (Obj qs) k v = Obj (set_prop qs k v)" using False by simp
    have "js ''__proto__'' \<notin> fst ` set (set_prop qs k v)"
      unfolding set_prop_keys using False Cons.prems(2) by simp
    from Cons.IH [OF d this] False show ?thesis
      unfolding x assign_all_Cons a by (simp add: set_props_Cons split: option.splits)
  qed
qed

lemma canon_props_keys:
  "map canon_prop xs = map Inr ps \<Longrightarrow> map fst ps = map fst xs"
proof (induction xs arbitrary: ps)
  case Nil
  then show ?case by simp
next
  case (Cons x xs)
  then show ?case by (cases ps) (auto simp: canon_prop_def split: sum.splits)
qed

lemma map_Inr_fixed:
  assumes "map f xs = map Inr ys"
    and "\<And>x y. x \<in> set xs \<Longrightarrow> f x = Inr y \<Longrightarrow> f y = Inr y"
  shows "map f ys = map Inr ys"
  using assms
proof (induction xs arbitrary: ys)
  case Nil
  then show ?case by simp
next
  case (Cons x xs)
  from Cons.prems(1) obtain y ys' where ys: "ys = y # ys'" by (cases ys) auto
  from Cons.prems(1) have h: "f x = Inr y" and t: "map f xs = map Inr ys'"
    by (auto simp: ys)
  have "f y = Inr y" using Cons.prems(2) [of x y] h by simp
  moreover have "map f ys' = map Inr ys'"
  proof (rule Cons.IH [OF t])
    fix a b
    assume "a \<in> set xs" and "f a = Inr b"
    then show "f b = Inr b" using Cons.prems(2) [of a b] by simp
  qed
  ultimately show ?case by (simp add: ys)
qed

lemma map_Inr_all:
  assumes "map f xs = map Inr ys"
    and "\<And>x y. x \<in> set xs \<Longrightarrow> f x = Inr y \<Longrightarrow> P y"
  shows "\<forall>y\<in>set ys. P y"
proof
  fix y
  assume "y \<in> set ys"
  then obtain i where i: "i < length ys" "y = ys ! i" by (auto simp: in_set_conv_nth)
  from assms(1) have l: "length xs = length ys" by (rule map_eq_imp_length_eq)
  have "map f xs ! i = map Inr ys ! i" by (simp only: assms(1))
  then have "f (xs ! i) = Inr y" using i l by simp
  moreover have "xs ! i \<in> set xs" using i l by simp
  ultimately show "P y" by (rule assms(2) [rotated])
qed

lemma canon_props_idem:
  assumes "wf_json (Obj kvs)" and "js ''__proto__'' \<notin> fst ` set kvs"
    and ps: "map canon_prop (sort_key fst kvs) = map Inr ps"
    and fixed: "map canon_prop ps = map Inr ps"
  shows "assign_all (Obj []) ps = Obj (set_props [] ps)
         \<and> canonicalizeJson (Obj (set_props [] ps)) = Inr (Obj (set_props [] ps))"
proof -
  have keys: "map fst ps = map fst (sort_key fst kvs)" by (rule canon_props_keys [OF ps])
  have d: "distinct (map fst ps)" using assms(1) by (simp add: keys distinct_map)
  have s: "sorted (map fst ps)" by (simp add: keys)
  have "set (map fst ps) = fst ` set kvs" by (simp add: keys)
  then have np: "js ''__proto__'' \<notin> fst ` set ps" using assms(2) by simp
  have a: "assign_all (Obj []) ps = Obj (set_props [] ps)"
    using assign_all_no_proto [OF np, of "[]"] by simp
  have "canonicalizeJson (Obj (set_props [] ps)) = Inr (assign_all (Obj []) ps)"
    by (simp only: canon_Obj sort_set_props [OF d s] fixed sequence_map_Inr sum.case)
  with a show ?thesis by simp
qed

lemma canonicalizeJson_idem:
  "wf_json v \<Longrightarrow> no_proto_key v \<Longrightarrow> canonicalizeJson v = Inr c \<Longrightarrow> canonicalizeJson c = Inr c"
proof (induction v arbitrary: c rule: canonicalizeJson.induct)
  case (7 vs)
  from "7.prems"(3) obtain ws where ws: "sequence (map canonicalizeJson vs) = Inr ws" and c: "c = Arr ws"
    by (auto split: sum.splits)
  from ws have m: "map canonicalizeJson vs = map Inr ws" by (rule sequence_Inr_D)
  have "map canonicalizeJson ws = map Inr ws"
  proof (rule map_Inr_fixed [OF m])
    fix x y
    assume "x \<in> set vs" and "canonicalizeJson x = Inr y"
    moreover have "wf_json x" using \<open>x \<in> set vs\<close> "7.prems"(1) by (simp add: list_all_iff)
    moreover have "no_proto_key x" using \<open>x \<in> set vs\<close> "7.prems"(2) by (simp add: list_all_iff)
    ultimately show "canonicalizeJson y = Inr y" using "7.IH" by blast
  qed
  then have "sequence (map canonicalizeJson ws) = Inr ws" by (simp only: sequence_map_Inr)
  then show ?case by (simp add: c)
next
  case (8 kvs)
  from "8.prems"(3)
  have "(case sequence (map canon_prop (sort_key fst kvs)) of Inl e \<Rightarrow> Inl e
         | Inr ps \<Rightarrow> Inr (assign_all (Obj []) ps)) = Inr c"
    by (simp only: canon_Obj)
  then obtain ps where "sequence (map canon_prop (sort_key fst kvs)) = Inr ps"
    and c: "c = assign_all (Obj []) ps"
    by (auto split: sum.splits)
  then have ps: "map canon_prop (sort_key fst kvs) = map Inr ps" by (intro sequence_Inr_D)
  have fixed: "map canon_prop ps = map Inr ps"
  proof (rule map_Inr_fixed [OF ps])
    fix x p
    assume x: "x \<in> set (sort_key fst kvs)" and r: "canon_prop x = Inr p"
    from r have r': "canonicalizeJson (snd x) = Inr (snd p)"
      by (auto simp: canon_prop_def split: sum.splits)
    then have "snd x \<noteq> Undefined" by auto
    moreover have "wf_json (snd x)" using x "8.prems"(1) by (simp add: list_all_iff)
    moreover have "no_proto_key (snd x)" using x "8.prems"(2) by (simp add: list_all_iff)
    ultimately have "canonicalizeJson (snd p) = Inr (snd p)"
      using "8.IH" [of x "fst x" "snd x" "snd p"] x r' by simp
    then show "canon_prop p = Inr p" by (simp add: canon_prop_def)
  qed
  have "js ''__proto__'' \<notin> fst ` set kvs" using "8.prems"(2) by simp
  from canon_props_idem [OF "8.prems"(1) this ps fixed] show ?case by (simp only: c)
next
  case (9 p kvs)
  show ?case
  proof (cases "p = Null")
    case False
    with "9.prems"(3) show ?thesis by simp
  next
    case True
    from "9.prems"(3)
    have "(case sequence (map canon_prop (sort_key fst kvs)) of Inl e \<Rightarrow> Inl e
           | Inr ps \<Rightarrow> Inr (assign_all (Obj []) ps)) = Inr c"
      unfolding True by (simp only: canon_ProtoObj_Null)
    then obtain ps where "sequence (map canon_prop (sort_key fst kvs)) = Inr ps"
      and c: "c = assign_all (Obj []) ps"
      by (auto split: sum.splits)
    then have ps: "map canon_prop (sort_key fst kvs) = map Inr ps" by (intro sequence_Inr_D)
    have fixed: "map canon_prop ps = map Inr ps"
    proof (rule map_Inr_fixed [OF ps])
      fix x q
      assume x: "x \<in> set (sort_key fst kvs)" and r: "canon_prop x = Inr q"
      from r have r': "canonicalizeJson (snd x) = Inr (snd q)"
        by (auto simp: canon_prop_def split: sum.splits)
      then have "snd x \<noteq> Undefined" by auto
      moreover have "wf_json (snd x)" using x "9.prems"(1) by (simp add: list_all_iff)
      moreover have "no_proto_key (snd x)" using x "9.prems"(2) by (simp add: list_all_iff)
      ultimately have "canonicalizeJson (snd q) = Inr (snd q)"
        using "9.IH" [OF True, of x "fst x" "snd x" "snd q"] x r' by simp
      then show "canon_prop q = Inr q" by (simp add: canon_prop_def)
    qed
    have w: "wf_json (Obj kvs)" using "9.prems"(1) by simp
    have "js ''__proto__'' \<notin> fst ` set kvs" using "9.prems"(2) by simp
    from canon_props_idem [OF w this ps fixed] show ?thesis by (simp only: c)
  qed
next
  case (5 n)
  then have "c = Num n" by (simp split: option.splits)
  with 5 show ?case by simp
qed simp_all

lemma set_prop_other_keys:
  "k \<notin> fst ` set out \<Longrightarrow>
     filter (\<lambda>k. array_index k = None) (map fst (set_prop out k v)) =
     filter (\<lambda>k. array_index k = None) (map fst out) @ (if array_index k = None then [k] else [])"
proof (induction out)
  case Nil
  show ?case by simp
next
  case (Cons p out)
  obtain k' v' where p: "p = (k', v')" by (cases p)
  from Cons.prems have ne: "k' \<noteq> k" and fresh: "k \<notin> fst ` set out" by (auto simp: p)
  note ih = Cons.IH [OF fresh]
  show ?case
    unfolding p set_prop.simps using ne fresh ih
    by (simp split: option.splits)
qed

lemma set_props_other_keys:
  "distinct (map fst out @ map fst ps) \<Longrightarrow>
     filter (\<lambda>k. array_index k = None) (map fst (set_props out ps)) =
     filter (\<lambda>k. array_index k = None) (map fst out @ map fst ps)"
proof (induction ps arbitrary: out)
  case Nil
  then show ?case by (simp add: set_props_def)
next
  case (Cons p ps)
  obtain k v where p: "p = (k, v)" by (cases p)
  from Cons.prems have fresh: "k \<notin> fst ` set out" and d: "distinct (map fst out)"
    and dps: "distinct (map fst ps)" and kps: "k \<notin> fst ` set ps"
    and disj: "fst ` set out \<inter> fst ` set ps = {}"
    by (auto simp: p)
  have s': "fst ` set (set_prop out k v) = insert k (fst ` set out)"
    by (simp add: set_prop_fresh [OF fresh])
  have "distinct (map fst (set_prop out k v) @ map fst ps)"
    using set_prop_keys_fresh [OF fresh d, of v] dps kps disj unfolding distinct_append set_map s'
    by blast
  from Cons.IH [OF this] show ?case
    unfolding p set_props_Cons by (simp add: set_prop_other_keys [OF fresh])
qed

lemma canonical_props:
  assumes "distinct (map fst kvs)"
    and ps: "map canon_prop (sort_key fst kvs) = map Inr ps"
    and vals: "\<forall>p\<in>set ps. canonical_form (snd p)"
  shows "canonical_form (assign_all (Obj []) ps)"
proof -
  let ?f = "filter (\<lambda>p. fst p \<noteq> js ''__proto__'') ps"
  have keys: "map fst ps = map fst (sort_key fst kvs)" by (rule canon_props_keys [OF ps])
  have d: "distinct (map fst ps)" using assms(1) by (simp add: keys distinct_map)
  have s: "sorted (map fst ps)" by (simp add: keys)
  have df: "distinct (map fst ?f)" using d by (rule distinct_map_filter)
  have sf: "sorted (map fst ?f)" using s by (rule sorted_filter)
  have d0: "distinct (map fst [] @ map fst ?f)" using df by simp
  have "filter (\<lambda>k. array_index k = None) (map fst (set_props [] ?f)) =
        filter (\<lambda>k. array_index k = None) (map fst ?f)"
    using set_props_other_keys [OF d0] by simp
  moreover have "sorted_wrt (<) (filter (\<lambda>k. array_index k = None) (map fst ?f))"
    using df sf by (simp add: strict_sorted_iff sorted_wrt_filter)
  ultimately have order:
    "sorted_wrt (<) (filter (\<lambda>k. array_index k = None) (map fst (set_props [] ?f)))"
    by simp
  have "set (set_props [] ?f) = set ?f" using set_props_fresh [OF d0] by simp
  then have v: "list_all (\<lambda>p. canonical_form (snd p)) (set_props [] ?f)"
    using vals by (simp add: list_all_iff)
  have np: "js ''__proto__'' \<notin> fst ` set ([] :: (jsstring \<times> jsvalue) list)" by simp
  show ?thesis
  proof (cases "map_of ps (js ''__proto__'')")
    case None
    then show ?thesis unfolding assign_all_proto [OF d np] using order v by simp
  next
    case (Some c)
    then have "(js ''__proto__'', c) \<in> set ps" by (rule map_of_SomeD)
    with vals have "canonical_form c" by force
    with Some show ?thesis unfolding assign_all_proto [OF d np] using order v by simp
  qed
qed

section \<open>Canonicalization: properties\<close>

text \<open>
  C1. An object can have an own property named \<^verbatim>\<open>__proto__\<close>: the object that
  \<^verbatim>\<open>JSON.parse\<close> makes of the text \<^verbatim>\<open>{"__proto__":{"a":1}}\<close> has one. For this
  value \<^verbatim>\<open>canonicalizeJson\<close> returns an object with no own property whose prototype
  is the canonical value of that property, because the assignment \<^verbatim>\<open>out[key] = ...\<close>
  of the loop runs the setter of \<^verbatim>\<open>Object.prototype\<close>. The result is not a plain
  object, and \<^verbatim>\<open>canonicalizeJson\<close> applied to it throws instead of giving it back.
\<close>

theorem proto_key_not_idempotent:
  "wf_json (Obj [(js ''__proto__'', Obj [(js ''a'', Num (Finite 1))])])
   \<and> canonicalizeJson (Obj [(js ''__proto__'', Obj [(js ''a'', Num (Finite 1))])])
       = Inr (ProtoObj (Obj [(js ''a'', Num (Finite 1))]) [])
   \<and> canonicalizeJson (ProtoObj (Obj [(js ''a'', Num (Finite 1))]) [])
       = Inl (Error [Lit ''Snowy SDK: unsupported value type for hashing: '',
                     ObjTag (ProtoObj (Obj [(js ''a'', Num (Finite 1))]) [])])"
  by (simp add: js_def array_index_def is_digit_def assign_all_def is_object_def
        assertJsonSafeNumber_def isFinite_def)

text \<open>
  The order of the keys does not matter: two values that are equal up to the order of the
  keys of their objects have the same canonical value, or raise the same exception, and
  the same hash. (That a value none of whose objects has an own property named
  \<^verbatim>\<open>__proto__\<close> is canonicalized to a value that canonicalization gives back is
  \<open>canonicalizeJson_idem\<close> above.)
\<close>

lemma key_order_independent:
  "same_json a b \<Longrightarrow>
     canonicalizeJson a = canonicalizeJson b
     \<and> hashDeterministicJson env a = hashDeterministicJson env b"
  using same_json_canonical [of a b] by (simp add: hashDeterministicJson_def)

text \<open>
  C7, as stated: the keys of the canonical value are enumerated in the byte order of their
  UTF-8 encodings. This fails for a key above U+FFFF next to a key between U+E000 and
  U+FFFF, because the keys are sorted by UTF-16 code unit; and it fails for keys that are
  array indices, because an object enumerates those first and by numeric value.
\<close>

theorem canonical_keys_counterexample:
  "canonicalizeJson (Obj [([0xFF5E], Null), ([0xD83D, 0xDE00], Null)])
     = Inr (Obj [([0xD83D, 0xDE00], Null), ([0xFF5E], Null)])
   \<and> \<not> utf8_sorted_keys [([0xD83D, 0xDE00], Null), ([0xFF5E], Null)]
   \<and> canonicalizeJson (Obj [(js ''10'', Null), (js ''2'', Null)])
     = Inr (Obj [(js ''2'', Null), (js ''10'', Null)])
   \<and> \<not> utf8_sorted_keys [(js ''2'', Null), (js ''10'', Null)]"
  by (simp add: js_def array_index_def is_digit_def digits_val_def assign_all_def
        utf8_sorted_keys_def utf8Encode_def utf8_bytes_def is_high_surrogate_def
        is_low_surrogate_def scalar_value_def)

text \<open>
  C7, amended: in the canonical value of a value whose objects have distinct keys, the keys
  of every object that are not array indices are enumerated in ascending order of their
  UTF-16 code units, and this holds for the objects nested in it, inside objects and
  arrays, as well.
\<close>

theorem canonical_keys:
  "wf_json v \<Longrightarrow> canonicalizeJson v = Inr c \<Longrightarrow> canonical_form c"
proof (induction v arbitrary: c rule: canonicalizeJson.induct)
  case (7 vs)
  from "7.prems"(2) obtain ws where ws: "sequence (map canonicalizeJson vs) = Inr ws" and c: "c = Arr ws"
    by (auto split: sum.splits)
  from ws have m: "map canonicalizeJson vs = map Inr ws" by (rule sequence_Inr_D)
  have "\<forall>w\<in>set ws. canonical_form w"
  proof (rule map_Inr_all [OF m])
    fix x y
    assume x: "x \<in> set vs" and r: "canonicalizeJson x = Inr y"
    from x have "wf_json x" using "7.prems"(1) by (simp add: list_all_iff)
    then show "canonical_form y" using "7.IH" x r by blast
  qed
  then show ?case by (simp add: c list_all_iff)
next
  case (8 kvs)
  from "8.prems"(2)
  have "(case sequence (map canon_prop (sort_key fst kvs)) of Inl e \<Rightarrow> Inl e
         | Inr ps \<Rightarrow> Inr (assign_all (Obj []) ps)) = Inr c"
    by (simp only: canon_Obj)
  then obtain ps where "sequence (map canon_prop (sort_key fst kvs)) = Inr ps"
    and c: "c = assign_all (Obj []) ps"
    by (auto split: sum.splits)
  then have ps: "map canon_prop (sort_key fst kvs) = map Inr ps" by (intro sequence_Inr_D)
  have vals: "\<forall>p\<in>set ps. canonical_form (snd p)"
  proof (rule map_Inr_all [OF ps])
    fix x p
    assume x: "x \<in> set (sort_key fst kvs)" and "canon_prop x = Inr p"
    then have r: "canonicalizeJson (snd x) = Inr (snd p)"
      by (auto simp: canon_prop_def split: sum.splits)
    then have u: "snd x \<noteq> Undefined" by auto
    from x have "wf_json (snd x)" using "8.prems"(1) by (simp add: list_all_iff)
    then show "canonical_form (snd p)"
      using "8.IH" [of x "fst x" "snd x" "snd p"] x u r by simp
  qed
  from "8.prems"(1) have "distinct (map fst kvs)" by simp
  from canonical_props [OF this ps vals] show ?case by (simp only: c)
next
  case (9 p kvs)
  show ?case
  proof (cases "p = Null")
    case False
    with "9.prems"(2) show ?thesis by simp
  next
    case True
    from "9.prems"(2)
    have "(case sequence (map canon_prop (sort_key fst kvs)) of Inl e \<Rightarrow> Inl e
           | Inr ps \<Rightarrow> Inr (assign_all (Obj []) ps)) = Inr c"
      unfolding True by (simp only: canon_ProtoObj_Null)
    then obtain ps where "sequence (map canon_prop (sort_key fst kvs)) = Inr ps"
      and c: "c = assign_all (Obj []) ps"
      by (auto split: sum.splits)
    then have ps: "map canon_prop (sort_key fst kvs) = map Inr ps" by (intro sequence_Inr_D)
    have vals: "\<forall>q\<in>set ps. canonical_form (snd q)"
    proof (rule map_Inr_all [OF ps])
      fix x q
      assume x: "x \<in> set (sort_key fst kvs)" and "canon_prop x = Inr q"
      then have r: "canonicalizeJson (snd x) = Inr (snd q)"
        by (auto simp: canon_prop_def split: sum.splits)
      then have u: "snd x \<noteq> Undefined" by auto
      from x have "wf_json (snd x)" using "9.prems"(1) by (simp add: list_all_iff)
      then show "canonical_form (snd q)"
        using "9.IH" [OF True, of x "fst x" "snd x" "snd q"] x u r by simp
    qed
    from "9.prems"(1) have "distinct (map fst kvs)" by simp
    from canonical_props [OF this ps vals] show ?thesis by (simp only: c)
  qed
next
  case (5 n)
  then have "c = Num n" by (simp split: option.splits)
  then show ?case by simp
qed auto

text \<open>The theorem at an object with two array-index keys and a nested object.\<close>

theorem canonical_keys_witness:
  "wf_json (Obj [(js ''b'', Null), (js ''10'', Null), (js ''a'', Obj [(js ''d'', Null), (js ''c'', Null)]), (js ''2'', Null)])
   \<and> canonicalizeJson (Obj [(js ''b'', Null), (js ''10'', Null), (js ''a'', Obj [(js ''d'', Null), (js ''c'', Null)]), (js ''2'', Null)])
       = Inr (Obj [(js ''2'', Null), (js ''10'', Null), (js ''a'', Obj [(js ''c'', Null), (js ''d'', Null)]), (js ''b'', Null)])
   \<and> canonical_form (Obj [(js ''2'', Null), (js ''10'', Null), (js ''a'', Obj [(js ''c'', Null), (js ''d'', Null)]), (js ''b'', Null)])"
proof -
  let ?v = "Obj [(js ''b'', Null), (js ''10'', Null), (js ''a'', Obj [(js ''d'', Null), (js ''c'', Null)]), (js ''2'', Null)]"
  let ?c = "Obj [(js ''2'', Null), (js ''10'', Null), (js ''a'', Obj [(js ''c'', Null), (js ''d'', Null)]), (js ''b'', Null)]"
  have w: "wf_json ?v" by (simp add: js_def)
  have c: "canonicalizeJson ?v = Inr ?c"
    by (simp add: js_def array_index_def is_digit_def digits_val_def assign_all_def)
  from canonical_keys [OF w c] w c show ?thesis by simp
qed

section \<open>The client: lemmas and properties\<close>

lemma await_Returns: "await (evs, Returns x) f = (evs @ fst (f x), snd (f x))"
  by (simp add: await_def split: prod.splits)

lemma await_Throws: "await (evs, Throws e) f = (evs, Throws e)"
  by (simp add: await_def)

lemma await_Pending: "await (evs, Pending) f = (evs, Pending)"
  by (simp add: await_def)

lemma first_thrown_None: "first_thrown cs = None \<longleftrightarrow> (\<forall>c\<in>set cs. c = None)"
  by (induction cs rule: first_thrown.induct) auto

lemma signHash_unfold:
  "ensureBase58PublicKey env (publicKey wallet) = None \<Longrightarrow>
   signHash env wallet (Bytes h) =
     (if length h \<noteq> 32
      then ([], Throws (Error [Lit ''Snowy SDK: expected a 32-byte hash to sign'']))
      else (case signMessage wallet h of
              Pending \<Rightarrow> ([SignMessage h], Pending)
            | Throws e \<Rightarrow> ([SignMessage h], Throws e)
            | Returns sg \<Rightarrow>
                (case sg of
                   Bytes s \<Rightarrow>
                     if length s \<noteq> 64
                     then ([SignMessage h],
                           Throws (Error [Lit ''Snowy SDK: signature must be 64 bytes (got '',
                                          Interp (Num (Finite (of_nat (length s)))), Lit '')'']))
                     else ([SignMessage h], Returns (bs58_encode env s))
                 | _ \<Rightarrow> ([SignMessage h],
                         Throws (Error [Lit ''Snowy SDK: wallet.signMessage must return Uint8Array'']))))) "
  by (simp add: signHash_def await_def split: outcome.splits jsvalue.splits)

lemma hash_unfold:
  "hashDeterministicJson env v =
     (case canonicalizeJson v of
        Inl e \<Rightarrow> ([], Throws e)
      | Inr c \<Rightarrow>
          (case JSON_stringify env c of
             Inl e \<Rightarrow> ([], Throws e)
           | Inr json \<Rightarrow>
               (case sha256Raw env (utf8Encode json) of
                  Inl e \<Rightarrow> ([Sha256 (utf8Encode json)], Throws e)
                | Inr digest \<Rightarrow>
                    ([Sha256 (utf8Encode json)], Returns (digest, bs58_encode env digest)))))"
  by (simp add: hashDeterministicJson_def sha256_def await_def split: sum.splits)

lemma build_invalid:
  "first_thrown (arg_checks env wallet input) = Some e \<Longrightarrow>
   buildSignedRequest env this wallet input = ([], Throws e)"
  by (simp add: buildSignedRequest_def)

lemma build_valid:
  assumes "first_thrown (arg_checks env wallet input) = None"
  shows "buildSignedRequest env this wallet input =
     (case canonicalizeJson (toHash env this wallet input) of
        Inl e \<Rightarrow> ([], Throws e)
      | Inr c \<Rightarrow>
          (case JSON_stringify env c of
             Inl e \<Rightarrow> ([], Throws e)
           | Inr json \<Rightarrow>
               (case sha256Raw env (utf8Encode json) of
                  Inl e \<Rightarrow> ([Sha256 (utf8Encode json)], Throws e)
                | Inr digest \<Rightarrow>
                    (case signHash env wallet (Bytes digest) of
                       (evs, Returns signature) \<Rightarrow>
                         (Sha256 (utf8Encode json) # evs,
                          Returns (bs58_encode env digest,
                                   Obj (toHash_props env this wallet input @
                                        [(js ''requestHash'', Str (bs58_encode env digest)),
                                         (js ''signature'', Str signature)])))
                     | (evs, Throws e) \<Rightarrow> (Sha256 (utf8Encode json) # evs, Throws e)
                     | (evs, Pending) \<Rightarrow> (Sha256 (utf8Encode json) # evs, Pending)))))"
proof -
  have "buildSignedRequest env this wallet input =
          await (hashDeterministicJson env (toHash env this wallet input))
            (\<lambda>(requestHashBytes, requestHash).
               await (signHash env wallet (Bytes requestHashBytes))
                 (\<lambda>signature.
                    ([], Returns (requestHash,
                                  Obj (toHash_props env this wallet input @
                                       [(js ''requestHash'', Str requestHash),
                                        (js ''signature'', Str signature)])))))"
    using assms by (simp add: buildSignedRequest_def)
  then show ?thesis
    by (simp add: hash_unfold await_def split: sum.splits prod.splits outcome.splits)
qed

lemma await_events: "(\<And>x. fst (f x) = []) \<Longrightarrow> fst (await (evs, r) f) = evs"
  by (cases r) (simp_all add: await_Returns await_Throws await_Pending)

lemma postJson_try_events:
  "fst (postJson_try env tr url body init) =
     (case JSON_stringify env body of Inl e \<Rightarrow> [] | Inr payload \<Rightarrow> [Fetch url payload])"
proof (cases "JSON_stringify env body")
  case (Inl e)
  then show ?thesis by (simp add: postJson_try_def Let_def)
next
  case (Inr payload)
  show ?thesis
    unfolding postJson_try_def Let_def Inr sum.case
    by (rule await_events) (simp split: sum.splits)
qed

lemma postJson_events:
  "fst (postJson env tr url body init) =
     (case JSON_stringify env body of Inl e \<Rightarrow> [] | Inr payload \<Rightarrow> [Fetch url payload])"
  using postJson_try_events [of env tr url body init]
  by (cases "postJson_try env tr url body init") (simp add: postJson_def split: outcome.splits)


lemma check_response_events: "fst (check_response env this wallet h resp) = []"
  by (simp add: check_response_def Let_def split: option.splits)

lemma generate_None: "generate env this None input = ([], Throws (Error [Lit ''Snowy SDK: wallet is required'']))"
  by (simp add: generate_def)

lemma generate_build_Throws:
  "buildSignedRequest env this wallet input = (evs, Throws e) \<Longrightarrow>
   generate env this (Some wallet) input = (evs, Throws e)"
  by (simp add: generate_def await_def)

lemma generate_build_Pending:
  "buildSignedRequest env this wallet input = (evs, Pending) \<Longrightarrow>
   generate env this (Some wallet) input = (evs, Pending)"
  by (simp add: generate_def await_def)

lemma generate_build_Returns:
  "buildSignedRequest env this wallet input = (evs, Returns (h, req)) \<Longrightarrow>
   generate env this (Some wallet) input =
     (evs @ fst (postJson env (transport this) (endpoint this) req None),
      case snd (postJson env (transport this) (endpoint this) req None) of
        Returns resp \<Rightarrow> snd (check_response env this wallet h resp)
      | Throws e \<Rightarrow> Throws e
      | Pending \<Rightarrow> Pending)"
proof -
  assume b: "buildSignedRequest env this wallet input = (evs, Returns (h, req))"
  obtain pevs r where p: "postJson env (transport this) (endpoint this) req None = (pevs, r)"
    by (cases "postJson env (transport this) (endpoint this) req None")
  show ?thesis
    by (cases r) (simp_all add: generate_def b p await_Returns await_Throws await_Pending check_response_events)
qed

lemma signHash_events:
  "fst (signHash env wallet v) = [] \<or>
   (\<exists>h. v = Bytes h \<and> length h = 32 \<and> fst (signHash env wallet v) = [SignMessage h])"
proof (cases "ensureBase58PublicKey env (publicKey wallet)")
  case (Some e)
  then show ?thesis by (simp add: signHash_def)
next
  case None
  show ?thesis
  proof (cases v)
    case (Bytes h)
    show ?thesis unfolding Bytes signHash_unfold [OF None]
      by (simp split: outcome.splits jsvalue.splits)
  qed (simp_all add: signHash_def None)
qed

lemma build_events:
  "fst (buildSignedRequest env this wallet input) = [] \<or>
   (\<exists>c json. first_thrown (arg_checks env wallet input) = None \<and>
      canonicalizeJson (toHash env this wallet input) = Inr c \<and>
      JSON_stringify env c = Inr json \<and>
      (\<exists>r. sha256Raw env (utf8Encode json) = r \<and>
         (case r of
            Inl e \<Rightarrow> buildSignedRequest env this wallet input = ([Sha256 (utf8Encode json)], Throws e)
          | Inr d \<Rightarrow> fst (buildSignedRequest env this wallet input) =
                       Sha256 (utf8Encode json) # fst (signHash env wallet (Bytes d)))))"
proof (cases "first_thrown (arg_checks env wallet input)")
  case (Some e)
  then show ?thesis by (simp add: build_invalid)
next
  case None
  show ?thesis
    unfolding build_valid [OF None] using None
    by (simp split: sum.splits prod.splits outcome.splits)
qed

lemma ensureBase58PublicKey_iff:
  "ensureBase58PublicKey env pk \<noteq> None \<longleftrightarrow> (\<forall>d. bs58_decode env pk = Some d \<longrightarrow> length d \<noteq> 32)"
  by (simp add: ensureBase58PublicKey_def split: option.splits)

lemma assertModel_iff:
  "assertModel env m \<noteq> None \<longleftrightarrow>
     m \<notin> {Str (js ''snowy-base''), Str (js ''snowy-meme''), Str (js ''snowy-code'')}"
  by (simp add: assertModel_def split: option.splits)

lemma assertNonEmptyString_iff:
  "assertNonEmptyString name v \<noteq> None \<longleftrightarrow> (\<forall>s. v = Str s \<longrightarrow> trim s = [])"
  by (cases v) (simp_all add: assertNonEmptyString_def typeof_def)

lemma assertNumber_iff:
  "assertNumber name v \<noteq> None \<longleftrightarrow> (\<forall>r. v \<noteq> Num (Finite r))"
proof (cases v)
  case (Num n)
  then show ?thesis by (cases n) (simp_all add: assertNumber_def typeof_def isFinite_def)
qed (simp_all add: assertNumber_def typeof_def)

lemma assertInt_iff:
  "assertInt name v \<noteq> None \<longleftrightarrow> (\<forall>r. v = Num (Finite r) \<longrightarrow> r \<notin> \<int>)"
proof (cases "assertNumber name v")
  case None
  then have "\<exists>r. v = Num (Finite r)" using assertNumber_iff [of name v] by simp
  then obtain r where "v = Num (Finite r)" by blast
  with None show ?thesis by (simp add: assertInt_def isInteger_def)
next
  case (Some e)
  then have "\<forall>r. v \<noteq> Num (Finite r)" using assertNumber_iff [of name v] by simp
  with Some show ?thesis by (simp add: assertInt_def)
qed

lemma arg_checks_Cons:
  "arg_checks env wallet input = ensureBase58PublicKey env (publicKey wallet) # input_checks env input"
  by (simp add: arg_checks_def)

lemma input_checks_iff: "first_thrown (input_checks env input) \<noteq> None \<longleftrightarrow> invalid_input env input"
proof -
  have "first_thrown (input_checks env input) \<noteq> None \<longleftrightarrow>
      assertModel env (model input) \<noteq> None
      \<or> assertNonEmptyString ''prompt'' (prompt input) \<noteq> None
      \<or> assertNumber ''temperature'' (temperature input) \<noteq> None
      \<or> assertInt ''maxTokens'' (maxTokens input) \<noteq> None
      \<or> assertInt ''timestamp'' (timestamp_or_now env input) \<noteq> None"
    by (simp add: first_thrown_None input_checks_def)
  then show ?thesis
    by (simp only: assertModel_iff assertNonEmptyString_iff assertNumber_iff assertInt_iff
          invalid_input_def)
qed

lemma arg_checks_invalid:
  "first_thrown (arg_checks env wallet input) \<noteq> None \<longleftrightarrow>
     invalid_signer env wallet \<or> invalid_input env input"
proof (cases "ensureBase58PublicKey env (publicKey wallet)")
  case None
  then have "\<not> invalid_signer env wallet"
    using ensureBase58PublicKey_iff [of env "publicKey wallet"] by (simp add: invalid_signer_def)
  then show ?thesis using None input_checks_iff [of env input] by (simp add: arg_checks_Cons)
next
  case (Some e)
  then have "invalid_signer env wallet"
    using ensureBase58PublicKey_iff [of env "publicKey wallet"] by (simp add: invalid_signer_def)
  then show ?thesis using Some by (simp add: arg_checks_Cons)
qed

text \<open>
  C8. Every validation failure of \<^verbatim>\<open>generate\<close> (no wallet, a key that does not decode
  to 32 bytes, an invalid input field, a payload the canonicalizer rejects) ends the call
  with an exception before anything has happened: nothing was hashed, the wallet was not
  asked to sign and nothing was sent. Likewise \<^verbatim>\<open>hashDeterministicJson\<close> raises the
  exception of the canonicalizer before it hashes. In particular a key that decodes to 31
  bytes raises the public-key exception with no event at all.
\<close>

theorem validation_before_effects:
  "((wallet_arg = None \<or>
      (\<exists>w. wallet_arg = Some w \<and>
         (invalid_signer env w \<or> invalid_input env input \<or>
          (\<exists>e. canonicalizeJson (toHash env this w input) = Inl e))))
     \<longrightarrow> (\<exists>e. generate env this wallet_arg input = ([], Throws e)))
   \<and> (canonicalizeJson v = Inl e' \<longrightarrow> hashDeterministicJson env v = ([], Throws e'))
   \<and> (\<forall>w d. wallet_arg = Some w \<and> bs58_decode env (publicKey w) = Some d \<and> length d = 31
        \<longrightarrow> generate env this wallet_arg input =
              ([], Throws (Error [Lit ''Snowy SDK: wallet.publicKey must decode to 32 bytes (got '',
                                  Interp (Num (Finite 31)), Lit '')''])))"
proof (intro conjI impI allI)
  assume a: "wallet_arg = None \<or>
      (\<exists>w. wallet_arg = Some w \<and>
         (invalid_signer env w \<or> invalid_input env input \<or>
          (\<exists>e. canonicalizeJson (toHash env this w input) = Inl e)))"
  show "\<exists>e. generate env this wallet_arg input = ([], Throws e)"
  proof (cases wallet_arg)
    case None
    then show ?thesis by (simp add: generate_None)
  next
    case (Some w)
    show ?thesis
    proof (cases "first_thrown (arg_checks env w input)")
      case (Some e)
      then show ?thesis
        using build_invalid [of env w input e this] generate_build_Throws \<open>wallet_arg = Some w\<close>
        by blast
    next
      case None
      then have "\<not> (invalid_signer env w \<or> invalid_input env input)"
        using arg_checks_invalid [of env w input] by simp
      with a \<open>wallet_arg = Some w\<close> obtain e where "canonicalizeJson (toHash env this w input) = Inl e"
        by auto
      then have "buildSignedRequest env this w input = ([], Throws e)"
        by (simp add: build_valid [OF None])
      then show ?thesis using generate_build_Throws \<open>wallet_arg = Some w\<close> by blast
    qed
  qed
next
  assume "canonicalizeJson v = Inl e'"
  then show "hashDeterministicJson env v = ([], Throws e')" by (simp add: hash_unfold)
next
  fix w d
  assume a: "wallet_arg = Some w \<and> bs58_decode env (publicKey w) = Some d \<and> length d = 31"
  then have "first_thrown (arg_checks env w input) =
      Some (Error [Lit ''Snowy SDK: wallet.publicKey must decode to 32 bytes (got '',
                   Interp (Num (Finite 31)), Lit '')''])"
    by (simp add: arg_checks_Cons ensureBase58PublicKey_def)
  then show "generate env this wallet_arg input =
      ([], Throws (Error [Lit ''Snowy SDK: wallet.publicKey must decode to 32 bytes (got '',
                          Interp (Num (Finite 31)), Lit '')'']))"
    using a build_invalid generate_build_Throws by blast
qed

lemma ones_decode_ones: "ones_decode (ones n) = Some (replicate n 0)"
  by (simp add: ones_decode_def ones_def list_all_iff)

lemma example_key:
  "ensureBase58PublicKey (example_env p s) (publicKey (example_wallet n m)) =
     (if n \<noteq> 32
      then Some (Error [Lit ''Snowy SDK: wallet.publicKey must decode to 32 bytes (got '',
                        Interp (Num (Finite (of_nat n))), Lit '')''])
      else None)"
  by (simp add: ensureBase58PublicKey_def example_env_def example_wallet_def ones_decode_ones)

lemma example_input_valid:
  "first_thrown (input_checks (example_env p s) (example_input ''snowy-base'')) = None"
  by (simp add: input_checks_def example_input_def assertModel_def assertNonEmptyString_def
        assertNumber_def assertInt_def isInteger_def typeof_def isFinite_def trim_def
        is_white_space_def timestamp_or_now_def js_def)

lemma example_checks:
  "first_thrown (arg_checks (example_env p s) (example_wallet 32 m) (example_input ''snowy-base'')) = None"
  by (simp add: arg_checks_Cons example_key example_input_valid)

lemma example_canonical:
  "canonicalizeJson (toHash (example_env p s) (example_client t) (example_wallet 32 m)
                       (example_input ''snowy-base'')) =
     Inr (Obj [(js ''maxTokens'', Num (Finite 16)),
               (js ''model'', Str (js ''snowy-base'')),
               (js ''programId'', Str (js ''SNOWy1111111111111111111111111111111111'')),
               (js ''prompt'', Str (js ''hi'')),
               (js ''signer'', Str (ones 32)),
               (js ''temperature'', Num (Finite (1/5))),
               (js ''timestamp'', Num (Finite 1730000000000))])"
  by (simp add: toHash_def toHash_props_def example_input_def example_client_def example_wallet_def
        example_env_def timestamp_or_now_def js_def array_index_def is_digit_def assign_all_def
        assertJsonSafeNumber_def isFinite_def)

lemma example_signHash:
  "signHash (example_env p s) (example_wallet 32 m) (Bytes (replicate 32 0)) =
     (if m \<noteq> 64
      then ([SignMessage (replicate 32 0)],
            Throws (Error [Lit ''Snowy SDK: signature must be 64 bytes (got '',
                           Interp (Num (Finite (of_nat m))), Lit '')'']))
      else ([SignMessage (replicate 32 0)], Returns (ones 64)))"
proof -
  have k: "ensureBase58PublicKey (example_env p s) (publicKey (example_wallet 32 m)) = None"
    by (simp add: example_key)
  show ?thesis
    unfolding signHash_unfold [OF k]
    by (simp add: example_wallet_def example_env_def ones_encode_def ones_def)
qed

lemma example_build:
  "buildSignedRequest (example_env p s) (example_client t) (example_wallet 32 m)
       (example_input ''snowy-base'') =
     (if m \<noteq> 64
      then ([Sha256 (utf8Encode (js ''{}'')), SignMessage (replicate 32 0)],
            Throws (Error [Lit ''Snowy SDK: signature must be 64 bytes (got '',
                           Interp (Num (Finite (of_nat m))), Lit '')'']))
      else ([Sha256 (utf8Encode (js ''{}'')), SignMessage (replicate 32 0)],
            Returns (ones 32, example_request)))"
proof -
  have e: "sha256Raw (example_env p s) = (\<lambda>data. Inr (replicate 32 0))"
    "JSON_stringify (example_env p s) = (\<lambda>v. Inr (js ''{}''))"
    "bs58_encode (example_env p s) = ones_encode"
    by (simp_all add: example_env_def)
  have r: "toHash_props (example_env p s) (example_client t) (example_wallet 32 64)
             (example_input ''snowy-base'') @
           [(js ''requestHash'', Str (ones 32)), (js ''signature'', Str (ones 64))] =
           (case example_request of Obj kvs \<Rightarrow> kvs)"
    by (simp add: toHash_props_def example_request_def example_input_def example_client_def
          example_wallet_def example_env_def timestamp_or_now_def)
  show ?thesis
    unfolding build_valid [OF example_checks] example_canonical
    by (simp add: e example_signHash ones_encode_def ones_def [symmetric] r)
       (simp add: example_request_def)
qed

lemma example_key_31: "bs58_decode (example_env p s) (publicKey (example_wallet 31 m)) = Some (replicate 31 0)"
  by (simp add: example_env_def example_wallet_def ones_decode_ones)

lemma invalid_signer_iff:
  "invalid_signer env w \<longleftrightarrow> ensureBase58PublicKey env (publicKey w) \<noteq> None"
  by (simp only: invalid_signer_def ensureBase58PublicKey_iff)

lemma example_bad_model:
  "invalid_input (example_env p s) (example_input ''gpt-4'')"
  by (simp add: invalid_input_def example_input_def js_def)

text \<open>The theorem at a wallet whose key is 31 zero bytes.\<close>

theorem validation_before_effects_witness:
  "invalid_signer (example_env Null None) (example_wallet 31 64)
   \<and> bs58_decode (example_env Null None) (publicKey (example_wallet 31 64)) = Some (replicate 31 0)
   \<and> length (replicate 31 (0::8 word)) = 31
   \<and> generate (example_env Null None) (example_client None) (Some (example_wallet 31 64))
        (example_input ''snowy-base'') =
       ([], Throws (Error [Lit ''Snowy SDK: wallet.publicKey must decode to 32 bytes (got '',
                           Interp (Num (Finite 31)), Lit '')'']))
   \<and> hashDeterministicJson (example_env Null None) (Obj [(js ''temperature'', Num NaN)]) =
       ([], Throws (Error [Lit ''Snowy SDK: numbers must be finite for deterministic hashing'']))"
proof -
  have i: "invalid_signer (example_env Null None) (example_wallet 31 64)"
    by (simp add: invalid_signer_def example_key_31)
  have k: "bs58_decode (example_env Null None) (publicKey (example_wallet 31 64)) = Some (replicate 31 0)"
    by (rule example_key_31)
  have c: "canonicalizeJson (Obj [(js ''temperature'', Num NaN)]) =
      Inl (Error [Lit ''Snowy SDK: numbers must be finite for deterministic hashing''])"
    by (simp add: assertJsonSafeNumber_def isFinite_def)
  from validation_before_effects
         [of "Some (example_wallet 31 64)" "example_env Null None" "example_input ''snowy-base''"
             "example_client None" "Obj [(js ''temperature'', Num NaN)]"
             "Error [Lit ''Snowy SDK: numbers must be finite for deterministic hashing'']"]
       i k c
  show ?thesis by simp
qed

text \<open>
  C6, as stated: when the input and the wallet's key are both invalid, the exception is the
  one for the input. This fails: with an unsupported model and a 31-byte key the call raises
  the public-key exception, not the one \<^const>\<open>assertModel\<close> would raise.
\<close>

theorem input_before_signer_counterexample:
  "invalid_input (example_env Null None) (example_input ''gpt-4'')
   \<and> invalid_signer (example_env Null None) (example_wallet 31 64)
   \<and> assertModel (example_env Null None) (model (example_input ''gpt-4'')) =
       Some (Error [Lit ''Snowy SDK: unsupported model: '', Interp (Str (js ''gpt-4''))])
   \<and> generate (example_env Null None) (example_client None) (Some (example_wallet 31 64))
        (example_input ''gpt-4'') =
       ([], Throws (Error [Lit ''Snowy SDK: wallet.publicKey must decode to 32 bytes (got '',
                           Interp (Num (Finite 31)), Lit '')'']))"
proof -
  have "first_thrown (arg_checks (example_env Null None) (example_wallet 31 64) (example_input ''gpt-4'')) =
      Some (Error [Lit ''Snowy SDK: wallet.publicKey must decode to 32 bytes (got '',
                   Interp (Num (Finite 31)), Lit '')''])"
    by (simp add: arg_checks_Cons example_key)
  then have "generate (example_env Null None) (example_client None) (Some (example_wallet 31 64))
        (example_input ''gpt-4'') =
       ([], Throws (Error [Lit ''Snowy SDK: wallet.publicKey must decode to 32 bytes (got '',
                           Interp (Num (Finite 31)), Lit '')'']))"
    by (intro generate_build_Throws build_invalid)
  moreover have "invalid_signer (example_env Null None) (example_wallet 31 64)"
    by (simp add: invalid_signer_def example_key_31)
  moreover have "assertModel (example_env Null None) (model (example_input ''gpt-4'')) =
       Some (Error [Lit ''Snowy SDK: unsupported model: '', Interp (Str (js ''gpt-4''))])"
    by (simp add: assertModel_def interpolation_throws_def typeof_def example_input_def js_def)
  ultimately show ?thesis using example_bad_model by simp
qed

text \<open>
  C6, amended: \<^verbatim>\<open>generate\<close> checks the wallet's key before the input. When the key is
  invalid the exception is the one of \<^const>\<open>ensureBase58PublicKey\<close>, whatever the input
  is; the exception for the first invalid input field (model, prompt, temperature,
  \<^verbatim>\<open>maxTokens\<close>, timestamp, in this order) is raised only when the key is valid.
\<close>

theorem signer_before_input:
  "(invalid_signer env w \<longrightarrow>
      (\<exists>e. ensureBase58PublicKey env (publicKey w) = Some e
           \<and> generate env this (Some w) input = ([], Throws e)))
   \<and> (\<not> invalid_signer env w \<and> invalid_input env input \<longrightarrow>
      (\<exists>e. first_thrown (input_checks env input) = Some e
           \<and> generate env this (Some w) input = ([], Throws e)))"
proof (intro conjI impI)
  assume "invalid_signer env w"
  then obtain e where e: "ensureBase58PublicKey env (publicKey w) = Some e"
    by (auto simp: invalid_signer_iff)
  then have "first_thrown (arg_checks env w input) = Some e" by (simp add: arg_checks_Cons)
  then have "generate env this (Some w) input = ([], Throws e)"
    by (intro generate_build_Throws build_invalid)
  with e show "\<exists>e. ensureBase58PublicKey env (publicKey w) = Some e
           \<and> generate env this (Some w) input = ([], Throws e)" by blast
next
  assume a: "\<not> invalid_signer env w \<and> invalid_input env input"
  then have k: "ensureBase58PublicKey env (publicKey w) = None"
    by (simp add: invalid_signer_iff)
  from a obtain e where e: "first_thrown (input_checks env input) = Some e"
    using input_checks_iff [of env input] by auto
  then have "first_thrown (arg_checks env w input) = Some e" by (simp add: arg_checks_Cons k)
  then have "generate env this (Some w) input = ([], Throws e)"
    by (intro generate_build_Throws build_invalid)
  with e show "\<exists>e. first_thrown (input_checks env input) = Some e
           \<and> generate env this (Some w) input = ([], Throws e)" by blast
qed

text \<open>The theorem at an unsupported model, with a valid and with a 31-byte key.\<close>

theorem signer_before_input_witness:
  "\<not> invalid_signer (example_env Null None) (example_wallet 32 64)
   \<and> invalid_input (example_env Null None) (example_input ''gpt-4'')
   \<and> (\<exists>e. first_thrown (input_checks (example_env Null None) (example_input ''gpt-4'')) = Some e
         \<and> generate (example_env Null None) (example_client None) (Some (example_wallet 32 64))
              (example_input ''gpt-4'') = ([], Throws e))
   \<and> invalid_signer (example_env Null None) (example_wallet 31 64)
   \<and> (\<exists>e. ensureBase58PublicKey (example_env Null None) (publicKey (example_wallet 31 64)) = Some e
         \<and> generate (example_env Null None) (example_client None) (Some (example_wallet 31 64))
              (example_input ''gpt-4'') = ([], Throws e))"
proof -
  have a: "\<not> invalid_signer (example_env Null None) (example_wallet 32 64)"
    by (simp add: invalid_signer_iff example_key)
  have b: "invalid_signer (example_env Null None) (example_wallet 31 64)"
    by (simp add: invalid_signer_def example_key_31)
  from signer_before_input [of "example_env Null None" "example_wallet 32 64" "example_client None"
         "example_input ''gpt-4''"]
       signer_before_input [of "example_env Null None" "example_wallet 31 64" "example_client None"
         "example_input ''gpt-4''"]
       a b example_bad_model [of Null None]
  show ?thesis by simp
qed

lemma generate_sign:
  assumes "SignMessage d \<in> set (fst (generate env this (Some w) input))"
  shows "SignMessage d \<in> set (fst (buildSignedRequest env this w input))"
proof -
  obtain evs r where b: "buildSignedRequest env this w input = (evs, r)"
    by (cases "buildSignedRequest env this w input")
  show ?thesis
  proof (cases r)
    case (Returns x)
    obtain h req where x: "x = (h, req)" by (cases x)
    from assms show ?thesis
      unfolding generate_build_Returns [OF b [unfolded Returns x]] b
      by (simp add: postJson_events split: sum.splits)
  next
    case (Throws e)
    from assms show ?thesis
      unfolding generate_build_Throws [OF b [unfolded Throws]] b by simp
  next
    case Pending
    from assms show ?thesis
      unfolding generate_build_Pending [OF b [unfolded Pending]] b by simp
  qed
qed

lemma build_sign:
  assumes "SignMessage d \<in> set (fst (buildSignedRequest env this w input))"
  shows "first_thrown (arg_checks env w input) = None \<and> length d = 32 \<and>
         (\<exists>c json. canonicalizeJson (toHash env this w input) = Inr c \<and>
              JSON_stringify env c = Inr json \<and> sha256Raw env (utf8Encode json) = Inr d)"
proof -
  from assms have ne: "fst (buildSignedRequest env this w input) \<noteq> []" by auto
  with build_events [of env this w input]
  obtain c json where v: "first_thrown (arg_checks env w input) = None"
    and c: "canonicalizeJson (toHash env this w input) = Inr c"
    and j: "JSON_stringify env c = Inr json"
    and r: "(case sha256Raw env (utf8Encode json) of
            Inl e \<Rightarrow> buildSignedRequest env this w input = ([Sha256 (utf8Encode json)], Throws e)
          | Inr d \<Rightarrow> fst (buildSignedRequest env this w input) =
                       Sha256 (utf8Encode json) # fst (signHash env w (Bytes d)))"
    by auto
  show ?thesis
  proof (cases "sha256Raw env (utf8Encode json)")
    case (Inl e)
    with r assms show ?thesis by simp
  next
    case (Inr d')
    with r assms have "SignMessage d \<in> set (fst (signHash env w (Bytes d')))" by simp
    with signHash_events [of env w "Bytes d'"] have "d' = d" "length d = 32" by auto
    with v c j Inr show ?thesis by simp
  qed
qed

text \<open>
  C9. \<^verbatim>\<open>signHash\<close> throws without calling the wallet when its argument is not a
  \<^verbatim>\<open>Uint8Array\<close> of exactly 32 bytes; hence every call of \<^verbatim>\<open>wallet.signMessage\<close>,
  by \<^verbatim>\<open>signHash\<close> and by \<^verbatim>\<open>generate\<close>, is on a digest of 32 bytes.
\<close>

theorem signHash_digest_32:
  "((\<forall>h. hash32 = Bytes h \<longrightarrow> length h \<noteq> 32) \<longrightarrow> (\<exists>e. signHash env wallet hash32 = ([], Throws e)))
   \<and> (\<forall>d. SignMessage d \<in> set (fst (signHash env wallet hash32)) \<longrightarrow> length d = 32)
   \<and> (\<forall>d. SignMessage d \<in> set (fst (generate env this wallet_arg input)) \<longrightarrow> length d = 32)"
proof (intro conjI impI allI)
  assume a: "\<forall>h. hash32 = Bytes h \<longrightarrow> length h \<noteq> 32"
  show "\<exists>e. signHash env wallet hash32 = ([], Throws e)"
  proof (cases "ensureBase58PublicKey env (publicKey wallet)")
    case (Some e)
    then show ?thesis by (simp add: signHash_def)
  next
    case None
    with a show ?thesis by (cases hash32) (simp_all add: signHash_def)
  qed
next
  fix d
  assume "SignMessage d \<in> set (fst (signHash env wallet hash32))"
  with signHash_events [of env wallet hash32] show "length d = 32" by auto
next
  fix d
  assume a: "SignMessage d \<in> set (fst (generate env this wallet_arg input))"
  show "length d = 32"
  proof (cases wallet_arg)
    case None
    with a show ?thesis by (simp add: generate_None)
  next
    case (Some w)
    with a build_sign [OF generate_sign] show ?thesis by blast
  qed
qed

text \<open>
  C5. When the wallet has been asked to sign and returns a signature whose length is not
  64 bytes, \<^verbatim>\<open>generate\<close> fails with the signature-length exception and no request has
  been sent.
\<close>

theorem short_signature_rejected:
  assumes "SignMessage d \<in> set (fst (generate env this (Some w) input))"
    and "signMessage w d = Returns (Bytes s)" and "length s \<noteq> 64"
  shows "snd (generate env this (Some w) input) =
           Throws (Error [Lit ''Snowy SDK: signature must be 64 bytes (got '',
                          Interp (Num (Finite (of_nat (length s)))), Lit '')''])
         \<and> (\<forall>url body. Fetch url body \<notin> set (fst (generate env this (Some w) input)))"
proof -
  from build_sign [OF generate_sign [OF assms(1)]]
  obtain c json where v: "first_thrown (arg_checks env w input) = None" and l: "length d = 32"
    and c: "canonicalizeJson (toHash env this w input) = Inr c"
    and j: "JSON_stringify env c = Inr json"
    and h: "sha256Raw env (utf8Encode json) = Inr d"
    by blast
  from v have k: "ensureBase58PublicKey env (publicKey w) = None"
    by (simp add: arg_checks_Cons first_thrown_None)
  have "signHash env w (Bytes d) =
      ([SignMessage d], Throws (Error [Lit ''Snowy SDK: signature must be 64 bytes (got '',
                          Interp (Num (Finite (of_nat (length s)))), Lit '')'']))"
    unfolding signHash_unfold [OF k] using l assms(2,3) by simp
  then have "buildSignedRequest env this w input =
      ([Sha256 (utf8Encode json), SignMessage d],
       Throws (Error [Lit ''Snowy SDK: signature must be 64 bytes (got '',
                          Interp (Num (Finite (of_nat (length s)))), Lit '')'']))"
    unfolding build_valid [OF v] by (simp add: c j h)
  from generate_build_Throws [OF this] show ?thesis by simp
qed

lemma generate_response:
  assumes "buildSignedRequest env this w input = (evs, Returns (h, req))"
    and "postJson env (transport this) (endpoint this) req None = (evs', Returns resp)"
  shows "generate env this (Some w) input = (evs @ evs', snd (check_response env this w h resp))"
proof -
  show ?thesis
    unfolding generate_build_Returns [OF assms(1)] by (simp add: assms(2))
qed

lemma build_request_fields:
  assumes "buildSignedRequest env this w input = (evs, Returns (h, req))"
  shows "get_prop req ''requestHash'' = Str h \<and> get_prop req ''signer'' = Str (publicKey w)
         \<and> get_prop req ''programId'' = Str (programId this)"
proof -
  have v: "first_thrown (arg_checks env w input) = None"
  proof (rule ccontr)
    assume "first_thrown (arg_checks env w input) \<noteq> None"
    then obtain e where "first_thrown (arg_checks env w input) = Some e" by auto
    from build_invalid [OF this, of this] assms show False by simp
  qed
  have "\<exists>sg. req = Obj (toHash_props env this w input @
                        [(js ''requestHash'', Str h), (js ''signature'', Str sg)])"
    using assms unfolding build_valid [OF v]
    by (auto split: sum.splits prod.splits outcome.splits)
  then obtain sg where r: "req = Obj (toHash_props env this w input @
                        [(js ''requestHash'', Str h), (js ''signature'', Str sg)])" by blast
  show ?thesis
    unfolding r by (simp add: toHash_props_def js_def)
qed

text \<open>
  C2. When the response that has arrived carries verification metadata that differs from
  what was sent, \<^verbatim>\<open>generate\<close> throws and does not return the response; for a response of
  the right shape the exception names the first field that differs, in the order
  \<^verbatim>\<open>requestHash\<close>, \<^verbatim>\<open>signer\<close>, \<^verbatim>\<open>programId\<close>.
\<close>

theorem verification_mismatch_rejected:
  assumes "buildSignedRequest env this w input = (evs, Returns (h, req))"
    and "postJson env (transport this) (endpoint this) req None = (evs', Returns resp)"
  shows "(get_prop (get_prop resp ''verification'') ''requestHash'' \<noteq> get_prop req ''requestHash''
          \<or> get_prop (get_prop resp ''verification'') ''signer'' \<noteq> get_prop req ''signer''
          \<or> get_prop (get_prop resp ''verification'') ''programId'' \<noteq> get_prop req ''programId''
          \<longrightarrow> (\<exists>e. snd (generate env this (Some w) input) = Throws e))
       \<and> (validateGenerateResponse env resp = None \<longrightarrow>
            (get_prop (get_prop resp ''verification'') ''requestHash'' \<noteq> get_prop req ''requestHash''
               \<longrightarrow> snd (generate env this (Some w) input) =
                     Throws (Error [Lit ''Snowy SDK: response verification.requestHash mismatch'']))
          \<and> (get_prop (get_prop resp ''verification'') ''requestHash'' = get_prop req ''requestHash''
              \<and> get_prop (get_prop resp ''verification'') ''signer'' \<noteq> get_prop req ''signer''
               \<longrightarrow> snd (generate env this (Some w) input) =
                     Throws (Error [Lit ''Snowy SDK: response verification.signer mismatch'']))
          \<and> (get_prop (get_prop resp ''verification'') ''requestHash'' = get_prop req ''requestHash''
              \<and> get_prop (get_prop resp ''verification'') ''signer'' = get_prop req ''signer''
              \<and> get_prop (get_prop resp ''verification'') ''programId'' \<noteq> get_prop req ''programId''
               \<longrightarrow> snd (generate env this (Some w) input) =
                     Throws (Error [Lit ''Snowy SDK: response verification.programId mismatch''])))"
proof -
  note f = build_request_fields [OF assms(1)]
  note g = generate_response [OF assms]
  show ?thesis
  proof (cases "validateGenerateResponse env resp")
    case (Some e)
    then show ?thesis by (simp add: g check_response_def)
  next
    case None
    then show ?thesis by (simp add: g f check_response_def Let_def)
  qed
qed

lemma postJson_signal:
  "postJson_try env tr url body None =
     (case JSON_stringify env body of
        Inl e \<Rightarrow> ([], Throws e)
      | Inr payload \<Rightarrow>
          await ([Fetch url payload],
                 fetchFn env url payload
                   (case timeoutMs tr of
                      None \<Rightarrow> None
                    | Some t \<Rightarrow>
                        if t \<noteq> 0
                        then Some (AbortSignal (Some (timer_delay env t,
                                                      Error [Lit ''Snowy SDK: request timeout''])))
                        else None))
            (\<lambda>res.
               if \<not> ok res
               then ([], Throws (SnowyHttpError (status res) (statusText res) url (bodyText res)))
               else if length (bodyText res) = 0
               then ([], Throws (SnowyTransportError [Lit ''Snowy SDK: empty JSON response body''] None))
               else (case JSON_parse env (bodyText res) of
                       Inr parsed \<Rightarrow> ([], Returns parsed)
                     | Inl e \<Rightarrow>
                         ([], Throws (SnowyTransportError
                                        [Lit ''Snowy SDK: failed to parse JSON response''] (Some e))))))"
  by (simp add: postJson_try_def Let_def split: sum.splits)


lemma postJson_in_time:
  assumes "JSON_stringify env body = Inr payload"
    and "\<not> timed_out env (timeoutMs tr) (exchange env url payload)"
    and "exchange env url payload = Some (t', r)"
  shows "postJson env tr url body None =
     ([Fetch url payload],
      case r of
        Inl c \<Rightarrow> Throws (postJson_catch c)
      | Inr res \<Rightarrow>
          if \<not> ok res then Throws (SnowyHttpError (status res) (statusText res) url (bodyText res))
          else if bodyText res = []
          then Throws (SnowyTransportError [Lit ''Snowy SDK: empty JSON response body''] None)
          else (case JSON_parse env (bodyText res) of
                  Inl e \<Rightarrow> Throws (SnowyTransportError
                                      [Lit ''Snowy SDK: failed to parse JSON response''] (Some e))
                | Inr parsed \<Rightarrow> Returns parsed))"
proof -
  let ?sig = "case timeoutMs tr of None \<Rightarrow> None
      | Some t \<Rightarrow> if t \<noteq> 0 then Some (AbortSignal (Some (timer_delay env t, Error [Lit ''Snowy SDK: request timeout'']))) else None"
  have f: "fetchFn env url payload ?sig =
        (case r of Inl e \<Rightarrow> Throws e | Inr res \<Rightarrow> Returns res)"
    using assms(2,3) by (auto simp: fetchFn_def timed_out_def split: option.splits)
  show ?thesis
    unfolding postJson_def postJson_signal assms(1) sum.case f
    by (cases r) (simp_all add: await_Returns await_Throws await_Pending postJson_catch_def split: sum.splits)
qed

lemma postJson_silent:
  assumes "JSON_stringify env body = Inr payload"
    and "\<not> timed_out env (timeoutMs tr) (exchange env url payload)"
    and "exchange env url payload = None"
  shows "postJson env tr url body None = ([Fetch url payload], Pending)"
proof -
  let ?sig = "case timeoutMs tr of None \<Rightarrow> None
      | Some t \<Rightarrow> if t \<noteq> 0 then Some (AbortSignal (Some (timer_delay env t, Error [Lit ''Snowy SDK: request timeout'']))) else None"
  have f: "fetchFn env url payload ?sig = Pending"
    using assms(2,3) by (auto simp: fetchFn_def timed_out_def split: option.splits)
  show ?thesis
    unfolding postJson_def postJson_signal assms(1) sum.case f
    by (simp add: await_Pending)
qed


























lemma response_checks_usage:
  assumes "typeof (get_prop resp ''output'') = ''string''"
    and "get_prop resp ''model'' \<in> {Str (js ''snowy-base''), Str (js ''snowy-meme''), Str (js ''snowy-code'')}"
    and "truthy (get_prop resp ''usage'') \<and> typeof (get_prop resp ''usage'') = ''object''"
  shows "first_thrown (response_checks env resp) =
     first_thrown (drop 4 (response_checks env resp))"
proof -
  from assms(2) have "typeof (get_prop resp ''model'') = ''string''"
    and "assertModel env (get_prop resp ''model'') = None"
    by (auto simp: typeof_def assertModel_def)
  with assms(1,3) show ?thesis by (simp add: response_checks_def Let_def)
qed

text \<open>
  C10. Of the usage of a response the validation checks the type of the three token
  counts and nothing else. In a response that is in order up to its usage object, a count
  that is not of number type makes \<^verbatim>\<open>validateGenerateResponse\<close> throw the exception
  that names the first such count, and \<^verbatim>\<open>generate\<close> throws it; when the three
  counts are numbers, whatever numbers they are (fractional, not-a-number, infinite, with
  no relation between them), and the verification fields are those that were sent, the
  response passes the validation and \<^verbatim>\<open>generate\<close> returns it unchanged.
\<close>

theorem usage_numbers_unchecked:
  assumes "buildSignedRequest env this w input = (evs, Returns (h, req))"
    and "postJson env (transport this) (endpoint this) req None = (evs', Returns resp)"
    and "truthy resp \<and> typeof resp = ''object''"
    and "typeof (get_prop resp ''output'') = ''string''"
    and "get_prop resp ''model'' \<in> {Str (js ''snowy-base''), Str (js ''snowy-meme''), Str (js ''snowy-code'')}"
    and "truthy (get_prop resp ''usage'') \<and> typeof (get_prop resp ''usage'') = ''object''"
  shows "(typeof (get_prop (get_prop resp ''usage'') ''promptTokens'') \<noteq> ''number'' \<longrightarrow>
            validateGenerateResponse env resp =
              Some (Error [Lit ''Snowy SDK: usage.promptTokens missing''])
          \<and> generate env this (Some w) input =
              (evs @ evs', Throws (Error [Lit ''Snowy SDK: usage.promptTokens missing''])))
       \<and> (typeof (get_prop (get_prop resp ''usage'') ''promptTokens'') = ''number''
          \<and> typeof (get_prop (get_prop resp ''usage'') ''completionTokens'') \<noteq> ''number'' \<longrightarrow>
            validateGenerateResponse env resp =
              Some (Error [Lit ''Snowy SDK: usage.completionTokens missing''])
          \<and> generate env this (Some w) input =
              (evs @ evs', Throws (Error [Lit ''Snowy SDK: usage.completionTokens missing''])))
       \<and> (typeof (get_prop (get_prop resp ''usage'') ''promptTokens'') = ''number''
          \<and> typeof (get_prop (get_prop resp ''usage'') ''completionTokens'') = ''number''
          \<and> typeof (get_prop (get_prop resp ''usage'') ''totalTokens'') \<noteq> ''number'' \<longrightarrow>
            validateGenerateResponse env resp =
              Some (Error [Lit ''Snowy SDK: usage.totalTokens missing''])
          \<and> generate env this (Some w) input =
              (evs @ evs', Throws (Error [Lit ''Snowy SDK: usage.totalTokens missing''])))
       \<and> (\<forall>a b c. get_prop (get_prop resp ''usage'') ''promptTokens'' = Num a
              \<and> get_prop (get_prop resp ''usage'') ''completionTokens'' = Num b
              \<and> get_prop (get_prop resp ''usage'') ''totalTokens'' = Num c
              \<and> truthy (get_prop resp ''verification'')
              \<and> typeof (get_prop resp ''verification'') = ''object''
              \<and> get_prop (get_prop resp ''verification'') ''requestHash'' = Str h
              \<and> get_prop (get_prop resp ''verification'') ''signer'' = Str (publicKey w)
              \<and> get_prop (get_prop resp ''verification'') ''programId'' = Str (programId this) \<longrightarrow>
            validateGenerateResponse env resp = None
          \<and> generate env this (Some w) input = (evs @ evs', Returns resp))"
proof -
  note g = generate_response [OF assms(1,2)]
  have v: "validateGenerateResponse env resp = first_thrown (drop 4 (response_checks env resp))"
    using assms(3) response_checks_usage [OF assms(4,5,6)]
    by (simp add: validateGenerateResponse_def)
  have d: "drop 4 (response_checks env resp) =
     (let u = get_prop resp ''usage''; v = get_prop resp ''verification'' in
      [if typeof (get_prop u ''promptTokens'') \<noteq> ''number''
       then Some (Error [Lit ''Snowy SDK: usage.promptTokens missing'']) else None,
       if typeof (get_prop u ''completionTokens'') \<noteq> ''number''
       then Some (Error [Lit ''Snowy SDK: usage.completionTokens missing'']) else None,
       if typeof (get_prop u ''totalTokens'') \<noteq> ''number''
       then Some (Error [Lit ''Snowy SDK: usage.totalTokens missing'']) else None,
       if \<not> truthy v \<or> typeof v \<noteq> ''object''
       then Some (Error [Lit ''Snowy SDK: response.verification missing'']) else None,
       if typeof (get_prop v ''requestHash'') \<noteq> ''string''
       then Some (Error [Lit ''Snowy SDK: verification.requestHash missing'']) else None,
       if typeof (get_prop v ''signer'') \<noteq> ''string''
       then Some (Error [Lit ''Snowy SDK: verification.signer missing'']) else None,
       if typeof (get_prop v ''programId'') \<noteq> ''string''
       then Some (Error [Lit ''Snowy SDK: verification.programId missing'']) else None])"
    by (simp add: response_checks_def Let_def)
  show ?thesis
  proof (intro conjI impI allI)
    assume "typeof (get_prop (get_prop resp ''usage'') ''promptTokens'') \<noteq> ''number''"
    then have r: "validateGenerateResponse env resp =
        Some (Error [Lit ''Snowy SDK: usage.promptTokens missing''])"
      unfolding v d by (simp add: Let_def)
    then show "validateGenerateResponse env resp =
        Some (Error [Lit ''Snowy SDK: usage.promptTokens missing''])" .
    from r show "generate env this (Some w) input =
        (evs @ evs', Throws (Error [Lit ''Snowy SDK: usage.promptTokens missing'']))"
      by (simp add: g check_response_def)
  next
    assume "typeof (get_prop (get_prop resp ''usage'') ''promptTokens'') = ''number''
          \<and> typeof (get_prop (get_prop resp ''usage'') ''completionTokens'') \<noteq> ''number''"
    then have r: "validateGenerateResponse env resp =
        Some (Error [Lit ''Snowy SDK: usage.completionTokens missing''])"
      unfolding v d by (simp add: Let_def)
    then show "validateGenerateResponse env resp =
        Some (Error [Lit ''Snowy SDK: usage.completionTokens missing''])" .
    from r show "generate env this (Some w) input =
        (evs @ evs', Throws (Error [Lit ''Snowy SDK: usage.completionTokens missing'']))"
      by (simp add: g check_response_def)
  next
    assume "typeof (get_prop (get_prop resp ''usage'') ''promptTokens'') = ''number''
          \<and> typeof (get_prop (get_prop resp ''usage'') ''completionTokens'') = ''number''
          \<and> typeof (get_prop (get_prop resp ''usage'') ''totalTokens'') \<noteq> ''number''"
    then have r: "validateGenerateResponse env resp =
        Some (Error [Lit ''Snowy SDK: usage.totalTokens missing''])"
      unfolding v d by (simp add: Let_def)
    then show "validateGenerateResponse env resp =
        Some (Error [Lit ''Snowy SDK: usage.totalTokens missing''])" .
    from r show "generate env this (Some w) input =
        (evs @ evs', Throws (Error [Lit ''Snowy SDK: usage.totalTokens missing'']))"
      by (simp add: g check_response_def)
  next
    fix a b c
    assume a: "get_prop (get_prop resp ''usage'') ''promptTokens'' = Num a
              \<and> get_prop (get_prop resp ''usage'') ''completionTokens'' = Num b
              \<and> get_prop (get_prop resp ''usage'') ''totalTokens'' = Num c
              \<and> truthy (get_prop resp ''verification'')
              \<and> typeof (get_prop resp ''verification'') = ''object''
              \<and> get_prop (get_prop resp ''verification'') ''requestHash'' = Str h
              \<and> get_prop (get_prop resp ''verification'') ''signer'' = Str (publicKey w)
              \<and> get_prop (get_prop resp ''verification'') ''programId'' = Str (programId this)"
    then have r: "validateGenerateResponse env resp = None"
      unfolding v d by (simp add: Let_def typeof_def)
    then show "validateGenerateResponse env resp = None" .
    from r a show "generate env this (Some w) input = (evs @ evs', Returns resp)"
      by (simp add: g check_response_def Let_def)
  qed
qed

lemma example_exchange:
  "exchange (example_env p s) url payload = s"
  "JSON_stringify (example_env p s) body = Inr (js ''{}'')"
  by (simp_all add: example_env_def)

lemma example_build_ok:
  "buildSignedRequest (example_env p s) (example_client t) (example_wallet 32 64)
       (example_input ''snowy-base'') =
     ([Sha256 (utf8Encode (js ''{}'')), SignMessage (replicate 32 0)],
      Returns (ones 32, example_request))"
  by (simp add: example_build)

lemma example_generate:
  "generate (example_env p s) (example_client t) (Some (example_wallet 32 64))
       (example_input ''snowy-base'') =
     ([Sha256 (utf8Encode (js ''{}'')), SignMessage (replicate 32 0),
       Fetch (js ''https://router.example/inference'') (js ''{}'')],
      case snd (postJson (example_env p s) \<lparr>timeoutMs = t\<rparr>
                  (js ''https://router.example/inference'') example_request None) of
        Returns resp \<Rightarrow>
          snd (check_response (example_env p s) (example_client t) (example_wallet 32 64) (ones 32) resp)
      | Throws e \<Rightarrow> Throws e
      | Pending \<Rightarrow> Pending)"
  unfolding generate_build_Returns [OF example_build_ok]
  by (simp add: example_client_def postJson_events example_exchange)

lemma example_post_answer:
  "postJson (example_env p (answers code body)) \<lparr>timeoutMs = None\<rparr> url req None =
     ([Fetch url (js ''{}'')],
      if \<not> (200 \<le> code \<and> code \<le> 299)
      then Throws (SnowyHttpError code (js ''status'') url body)
      else if body = []
      then Throws (SnowyTransportError [Lit ''Snowy SDK: empty JSON response body''] None)
      else if body = example_text then Returns p
      else Throws (SnowyTransportError [Lit ''Snowy SDK: failed to parse JSON response'']
                     (Some (Foreign ''SyntaxError''))))"
proof -
  have j: "JSON_stringify (example_env p (answers code body)) req = Inr (js ''{}'')"
    by (rule example_exchange)
  have t: "\<not> timed_out (example_env p (answers code body)) (timeoutMs \<lparr>timeoutMs = None\<rparr>)
             (exchange (example_env p (answers code body)) url (js ''{}''))"
    by (simp add: timed_out_def)
  have x: "exchange (example_env p (answers code body)) url (js ''{}'') =
           Some (5, Inr \<lparr>status = code, statusText = js ''status'', bodyText = body\<rparr>)"
    by (simp add: example_exchange answers_def)
  show ?thesis
    unfolding postJson_in_time [OF j t x]
    by (simp add: ok_def) (simp add: example_env_def)
qed

lemma example_post_ok:
  "postJson (example_env p (answers 200 example_text)) (transport (example_client None))
       (endpoint (example_client None)) example_request None =
     ([Fetch (js ''https://router.example/inference'') (js ''{}'')], Returns p)"
proof -
  have "example_text \<noteq> []" by (simp add: example_text_def js_def)
  then show ?thesis
    by (simp add: example_client_def example_post_answer)
qed

text \<open>The theorem at a response that echoes another request hash.\<close>

theorem verification_mismatch_rejected_witness:
  "validateGenerateResponse
       (example_env (example_response (ones 31) (Finite 5)) (answers 200 example_text))
       (example_response (ones 31) (Finite 5)) = None
   \<and> get_prop (get_prop (example_response (ones 31) (Finite 5)) ''verification'') ''requestHash''
       \<noteq> get_prop example_request ''requestHash''
   \<and> snd (generate (example_env (example_response (ones 31) (Finite 5)) (answers 200 example_text))
             (example_client None) (Some (example_wallet 32 64)) (example_input ''snowy-base'')) =
       Throws (Error [Lit ''Snowy SDK: response verification.requestHash mismatch''])"
proof -
  let ?resp = "example_response (ones 31) (Finite 5)"
  have v: "validateGenerateResponse (example_env ?resp (answers 200 example_text)) ?resp = None"
    by (simp add: validateGenerateResponse_def response_checks_def example_response_def truthy_def
          typeof_def js_def assertModel_def Let_def)
  have m: "get_prop (get_prop ?resp ''verification'') ''requestHash''
       \<noteq> get_prop example_request ''requestHash''"
    by (simp add: example_response_def example_request_def js_def ones_def)
  from verification_mismatch_rejected
         [OF example_build_ok [of ?resp "answers 200 example_text" None] example_post_ok [of ?resp]]
       v m
  show ?thesis by simp
qed

text \<open>
  The theorem at token counts 3/2, not-a-number and infinity, and at a total count that is
  a string.
\<close>

theorem usage_numbers_unchecked_witness:
  "generate (example_env (example_response (ones 32) PosInfinity) (answers 200 example_text))
      (example_client None) (Some (example_wallet 32 64)) (example_input ''snowy-base'') =
     ([Sha256 (utf8Encode (js ''{}'')), SignMessage (replicate 32 0),
       Fetch (js ''https://router.example/inference'') (js ''{}'')],
      Returns (example_response (ones 32) PosInfinity))
   \<and> typeof (get_prop (get_prop example_bad_usage ''usage'') ''totalTokens'') = ''string''
   \<and> generate (example_env example_bad_usage (answers 200 example_text))
      (example_client None) (Some (example_wallet 32 64)) (example_input ''snowy-base'') =
     ([Sha256 (utf8Encode (js ''{}'')), SignMessage (replicate 32 0),
       Fetch (js ''https://router.example/inference'') (js ''{}'')],
      Throws (Error [Lit ''Snowy SDK: usage.totalTokens missing'']))"
proof -
  let ?resp = "example_response (ones 32) PosInfinity"
  have r: "truthy ?resp \<and> typeof ?resp = ''object''"
    "typeof (get_prop ?resp ''output'') = ''string''"
    "get_prop ?resp ''model'' \<in> {Str (js ''snowy-base''), Str (js ''snowy-meme''), Str (js ''snowy-code'')}"
    "truthy (get_prop ?resp ''usage'') \<and> typeof (get_prop ?resp ''usage'') = ''object''"
    by (simp_all add: example_response_def truthy_def typeof_def js_def)
  have u: "get_prop (get_prop ?resp ''usage'') ''promptTokens'' = Num (Finite (3/2))
      \<and> get_prop (get_prop ?resp ''usage'') ''completionTokens'' = Num NaN
      \<and> get_prop (get_prop ?resp ''usage'') ''totalTokens'' = Num PosInfinity
      \<and> truthy (get_prop ?resp ''verification'')
      \<and> typeof (get_prop ?resp ''verification'') = ''object''
      \<and> get_prop (get_prop ?resp ''verification'') ''requestHash'' = Str (ones 32)
      \<and> get_prop (get_prop ?resp ''verification'') ''signer'' = Str (publicKey (example_wallet 32 64))
      \<and> get_prop (get_prop ?resp ''verification'') ''programId'' = Str (programId (example_client None))"
    by (simp add: example_response_def truthy_def typeof_def js_def example_wallet_def example_client_def)
  have r': "truthy example_bad_usage \<and> typeof example_bad_usage = ''object''"
    "typeof (get_prop example_bad_usage ''output'') = ''string''"
    "get_prop example_bad_usage ''model'' \<in> {Str (js ''snowy-base''), Str (js ''snowy-meme''), Str (js ''snowy-code'')}"
    "truthy (get_prop example_bad_usage ''usage'') \<and> typeof (get_prop example_bad_usage ''usage'') = ''object''"
    by (simp_all add: example_bad_usage_def truthy_def typeof_def js_def)
  have u': "typeof (get_prop (get_prop example_bad_usage ''usage'') ''promptTokens'') = ''number''"
    "typeof (get_prop (get_prop example_bad_usage ''usage'') ''completionTokens'') = ''number''"
    "typeof (get_prop (get_prop example_bad_usage ''usage'') ''totalTokens'') = ''string''"
    by (simp_all add: example_bad_usage_def typeof_def js_def)
  from usage_numbers_unchecked
         [OF example_build_ok [of ?resp "answers 200 example_text" None] example_post_ok [of ?resp] r]
       u
  have 1: "generate (example_env ?resp (answers 200 example_text))
      (example_client None) (Some (example_wallet 32 64)) (example_input ''snowy-base'') =
     ([Sha256 (utf8Encode (js ''{}'')), SignMessage (replicate 32 0),
       Fetch (js ''https://router.example/inference'') (js ''{}'')], Returns ?resp)"
    by simp
  from usage_numbers_unchecked
         [OF example_build_ok [of example_bad_usage "answers 200 example_text" None]
             example_post_ok [of example_bad_usage] r']
       u'
  have 2: "generate (example_env example_bad_usage (answers 200 example_text))
      (example_client None) (Some (example_wallet 32 64)) (example_input ''snowy-base'') =
     ([Sha256 (utf8Encode (js ''{}'')), SignMessage (replicate 32 0),
       Fetch (js ''https://router.example/inference'') (js ''{}'')],
      Throws (Error [Lit ''Snowy SDK: usage.totalTokens missing'']))"
    by simp
  from 1 2 u'(3) show ?thesis by simp
qed

text \<open>The theorem at a wallet that returns 63 bytes.\<close>

theorem short_signature_rejected_witness:
  "SignMessage (replicate 32 0) \<in>
     set (fst (generate (example_env Null None) (example_client None) (Some (example_wallet 32 63))
                 (example_input ''snowy-base'')))
   \<and> signMessage (example_wallet 32 63) (replicate 32 0) = Returns (Bytes (replicate 63 0))
   \<and> snd (generate (example_env Null None) (example_client None) (Some (example_wallet 32 63))
             (example_input ''snowy-base'')) =
       Throws (Error [Lit ''Snowy SDK: signature must be 64 bytes (got '',
                      Interp (Num (Finite 63)), Lit '')''])
   \<and> (\<forall>url body. Fetch url body \<notin>
         set (fst (generate (example_env Null None) (example_client None)
                     (Some (example_wallet 32 63)) (example_input ''snowy-base''))))"
proof -
  have b: "buildSignedRequest (example_env Null None) (example_client None) (example_wallet 32 63)
       (example_input ''snowy-base'') =
      ([Sha256 (utf8Encode (js ''{}'')), SignMessage (replicate 32 0)],
       Throws (Error [Lit ''Snowy SDK: signature must be 64 bytes (got '',
                      Interp (Num (Finite 63)), Lit '')'']))"
    by (simp add: example_build)
  have s: "SignMessage (replicate 32 0) \<in>
     set (fst (generate (example_env Null None) (example_client None) (Some (example_wallet 32 63))
                 (example_input ''snowy-base'')))"
    by (simp add: generate_build_Throws [OF b])
  have w: "signMessage (example_wallet 32 63) (replicate 32 0) = Returns (Bytes (replicate 63 0))"
    by (simp add: example_wallet_def)
  from short_signature_rejected [OF s w] s w show ?thesis by simp
qed

text \<open>The theorem at a digest of 31 bytes, and at the example call.\<close>

theorem signHash_digest_32_witness:
  "length (replicate 31 (0::8 word)) \<noteq> 32
   \<and> (\<exists>e. signHash (example_env Null None) (example_wallet 32 64) (Bytes (replicate 31 0)) =
             ([], Throws e))
   \<and> SignMessage (replicate 32 0) \<in>
        set (fst (generate (example_env Null None) (example_client None)
                    (Some (example_wallet 32 64)) (example_input ''snowy-base'')))
   \<and> length (replicate 32 (0::8 word)) = 32"
proof -
  have s: "SignMessage (replicate 32 0) \<in>
        set (fst (generate (example_env Null None) (example_client None)
                    (Some (example_wallet 32 64)) (example_input ''snowy-base'')))"
    by (simp add: example_generate)
  from signHash_digest_32 [of "Bytes (replicate 31 0)" "example_env Null None"
         "example_wallet 32 64" "example_client None" "Some (example_wallet 32 64)"
         "example_input ''snowy-base''"] s
  show ?thesis by simp
qed






text \<open>
  C3. A transport with a timeout of 10 ms posts to a server that never answers. When the
  caller passes a signal (one that never aborts) the call never settles: the timer aborts a
  controller whose signal \<^verbatim>\<open>fetch\<close> was not given. Without the caller's signal the
  same call fails with the timeout as its cause.
\<close>

theorem timeout_lost_with_signal:
  "postJson (example_env Null None) \<lparr>timeoutMs = Some 10\<rparr>
      (js ''https://router.example/inference'') (Obj [])
      (Some \<lparr>init_timeoutMs = None, init_signal = Some (AbortSignal None)\<rparr>) =
     ([Fetch (js ''https://router.example/inference'') (js ''{}'')], Pending)
   \<and> postJson (example_env Null None) \<lparr>timeoutMs = Some 10\<rparr>
      (js ''https://router.example/inference'') (Obj []) None =
     ([Fetch (js ''https://router.example/inference'') (js ''{}'')],
      Throws (SnowyTransportError [Lit ''Snowy SDK: network or fetch failure'']
                (Some (Error [Lit ''Snowy SDK: request timeout'']))))"
  by (simp add: postJson_def postJson_try_def fetchFn_def example_env_def await_def
        postJson_catch_def)

end
